theory Spec2Isabelle
  imports Complex_Main "HOL-Library.Sublist"
begin

text \<open>
  A model of the action tracker of the DynamoDB MCP server
  (\<^verbatim>\<open>src/action-tracker.ts\<close>): the class \<^verbatim>\<open>ActionTracker\<close> with its constructor,
  \<^verbatim>\<open>connect\<close>, \<^verbatim>\<open>recordAction\<close> and the query methods, and the statements that
  these methods send to the graph store. Every method is a function from the tracker
  object and the world around it to an answer and the world afterwards; an exception
  that a method catches is a value.
\<close>

section \<open>The action graph\<close>

text \<open>
  The tracker of \<^verbatim>\<open>src/action-tracker.ts\<close> keeps its data in a graph store: nodes
  labelled \<^verbatim>\<open>User\<close>, \<^verbatim>\<open>MCP\<close> and \<^verbatim>\<open>Action\<close>, and the relationships
  \<^verbatim>\<open>(user)-[:PERFORMED]->(action)\<close> and \<^verbatim>\<open>(action)-[:USED]->(mcp)\<close>.
  Nodes are only ever added, so a node is identified by its position in the list of the
  nodes of its label, and a relationship is a pair of positions.

  A timestamp is the instant read by \<^verbatim>\<open>new Date()\<close>, in milliseconds since the epoch.
  The source stores its \<^verbatim>\<open>toISOString()\<close> rendering, which has a fixed width, so
  comparing two stored strings compares the instants.
\<close>

type_synonym timestamp = nat

datatype status = success | failure

record user_node =
  user_id :: string
  user_name :: string
  user_createdAt :: timestamp

record mcp_node =
  mcp_id :: string
  mcp_type :: string
  mcp_name :: string
  mcp_createdAt :: timestamp

record action_node =
  action_id :: string
  action_type :: string
  action_name :: string
  action_parameters :: string
  action_result :: string
  action_status :: status
  action_timestamp :: timestamp

record graph =
  users :: "user_node list"
  mcps :: "mcp_node list"
  actions :: "action_node list"
  performed :: "(nat \<times> nat) list"
  used :: "(nat \<times> nat) list"

definition empty_graph :: graph where
  "empty_graph = \<lparr>users = [], mcps = [], actions = [], performed = [], used = []\<rparr>"

section \<open>What the tracker does not define itself\<close>

text \<open>
  The functions of the JavaScript runtime, of the store and of its procedure library that
  the tracker calls are parameters of the model: \<^verbatim>\<open>JSON.stringify\<close>,
  \<^verbatim>\<open>JSON.parse\<close> (\<open>Inl\<close> is the text of the \<^verbatim>\<open>SyntaxError\<close> it throws),
  \<^verbatim>\<open>apoc.text.jaroWinklerDistance\<close>, \<^verbatim>\<open>db.index.fulltext.queryNodes\<close> (the
  positions of the Action nodes that the index gives for a query string),
  \<^verbatim>\<open>apoc.path.subgraphAll\<close>, \<^verbatim>\<open>uuidv4\<close> (the identifier that the \<open>n\<close>-th call
  draws) and the fate of the \<open>n\<close>-th request sent to the store (\<open>Some\<close> is the text
  of the error it raises: the store is unreachable, or it rejects the statement).
  \<^verbatim>\<open>JSON.stringify\<close> is taken to give a string for every payload. On a payload
  where it throws (a \<^verbatim>\<open>BigInt\<close>, a cycle) the methods that serialize answer
  \<^verbatim>\<open>success: false\<close> from their \<^verbatim>\<open>catch\<close> block and send nothing; such payloads
  are left out of the model.
\<close>

record ('j, 'sg) env =
  stringify :: "'j \<Rightarrow> string"
  parse :: "string \<Rightarrow> string + 'j"
  jaroWinklerDistance :: "string \<Rightarrow> string \<Rightarrow> rat"
  queryNodes :: "string \<Rightarrow> action_node list \<Rightarrow> nat list"
  subgraphAll :: "graph \<Rightarrow> nat \<Rightarrow> int \<Rightarrow> 'sg"
  uuidv4 :: "nat \<Rightarrow> string"
  store_error :: "nat \<Rightarrow> string option"

text \<open>
  The world outside the tracker object: the content of the store, the clock, how many
  identifiers have been drawn, how many requests have been sent to the store, and what
  has been written to the console.
\<close>

record world =
  db :: graph
  now :: timestamp
  uuid_calls :: nat
  store_calls :: nat
  console :: "string list"

definition console_log :: "string \<Rightarrow> world \<Rightarrow> world" where
  "console_log msg w = w\<lparr>console := console w @ [msg]\<rparr>"

text \<open>
  One request to the store (\<^verbatim>\<open>verifyConnectivity\<close>, or \<^verbatim>\<open>session.run\<close> of one
  statement): it is counted, and it either raises an error or goes through.
\<close>

definition request :: "('j, 'sg) env \<Rightarrow> world \<Rightarrow> string option \<times> world" where
  "request e w = (store_error e (store_calls w), w\<lparr>store_calls := Suc (store_calls w)\<rparr>)"

section \<open>The tracker object\<close>

record driver =
  driver_uri :: string
  driver_username :: string
  driver_password :: string

record tracker =
  driver :: "driver option"
  enabled :: bool

text \<open>
  The class has a third field, \<^verbatim>\<open>session\<close>, which no method assigns or reads.
  Opening and closing a session (\<^verbatim>\<open>driver.session()\<close>, \<^verbatim>\<open>session.close()\<close>) and
  closing the driver send no statement; they are taken to succeed and leave no trace in
  the model.
\<close>

text \<open>
  The answers of the public methods. \<open>Failed m\<close> is \<^verbatim>\<open>{success: false, message: m}\<close>;
  every other answer has \<^verbatim>\<open>success: true\<close>: \<open>Recorded i m\<close> is
  \<^verbatim>\<open>{success: true, actionId: i, message: m}\<close>, \<open>Related g\<close> has the field
  \<^verbatim>\<open>graph\<close> (\<open>None\<close> for \<^verbatim>\<open>undefined\<close>), and the other four carry the list
  \<^verbatim>\<open>similarActions\<close>, \<^verbatim>\<open>actions\<close>, \<^verbatim>\<open>suggestions\<close> or
  \<^verbatim>\<open>recommendations\<close>.
\<close>

record 'j parsed_action =
  pa_id :: string
  pa_type :: string
  pa_name :: string
  pa_parameters :: 'j
  pa_result :: 'j
  pa_status :: status
  pa_timestamp :: timestamp

record 'j similar_action =
  sa_action :: "'j parsed_action"
  sa_mcp :: mcp_node
  sa_similarity :: rat

record 'j suggestion =
  sg_actionType :: string
  sg_actionName :: string
  sg_possibleParameters :: "'j list"
  sg_frequency :: int

record 'j recommendation =
  rc_mcpType :: string
  rc_mcpName :: string
  rc_actionType :: string
  rc_actionName :: string
  rc_parameterSamples :: "'j list"
  rc_frequency :: int

datatype ('j, 'sg) response =
    Recorded string string
  | Failed string
  | Related "'sg option"
  | SimilarActions "'j similar_action list"
  | History "('j parsed_action \<times> mcp_node) list"
  | Suggestions "'j suggestion list"
  | Recommendations "'j recommendation list"

fun response_success :: "('j, 'sg) response \<Rightarrow> bool" where
  "response_success (Failed m) = False"
| "response_success r = True"

fun response_message :: "('j, 'sg) response \<Rightarrow> string option" where
  "response_message (Recorded i m) = Some m"
| "response_message (Failed m) = Some m"
| "response_message r = None"

fun response_actionId :: "('j, 'sg) response \<Rightarrow> string option" where
  "response_actionId (Recorded i m) = Some i"
| "response_actionId r = None"

subsection \<open>Constructor and connection\<close>

text \<open>
  \<^verbatim>\<open>if (uri && username && password)\<close>: an argument that is left out
  (\<^verbatim>\<open>undefined\<close>) and the empty string are both falsy.
\<close>

definition truthy :: "string option \<Rightarrow> bool" where
  "truthy v = (case v of None \<Rightarrow> False | Some s \<Rightarrow> s \<noteq> [])"

definition new_ActionTracker ::
  "string option \<Rightarrow> string option \<Rightarrow> string option \<Rightarrow> world \<Rightarrow> tracker \<times> world" where
  "new_ActionTracker uri username password w =
     (if truthy uri \<and> truthy username \<and> truthy password
      then (\<lparr>driver = Some \<lparr>driver_uri = the uri, driver_username = the username,
                              driver_password = the password\<rparr>,
             enabled = True\<rparr>, w)
      else (\<lparr>driver = None, enabled = False\<rparr>,
            console_log ''Neo4j connection parameters not provided. Action tracking will be disabled.'' w))"

text \<open>The guard at the head of every method: \<^verbatim>\<open>!this.enabled || !this.driver\<close>.\<close>

definition disabled :: "tracker \<Rightarrow> bool" where
  "disabled t = (\<not> enabled t \<or> driver t = None)"

text \<open>
  \<^verbatim>\<open>initializeSchema\<close> sends five statements in turn (three uniqueness constraints,
  two indices); the first one that fails ends it with that error.
\<close>

fun run_statements :: "('j, 'sg) env \<Rightarrow> nat \<Rightarrow> world \<Rightarrow> string option \<times> world" where
  "run_statements e 0 w = (None, w)"
| "run_statements e (Suc n) w =
     (case request e w of
        (Some err, w') \<Rightarrow> (Some err, w')
      | (None, w') \<Rightarrow> run_statements e n w')"

definition initializeSchema :: "('j, 'sg) env \<Rightarrow> tracker \<Rightarrow> world \<Rightarrow> string option \<times> world" where
  "initializeSchema e t w = (if disabled t then (None, w) else run_statements e 5 w)"

definition connect_failed :: "string \<Rightarrow> tracker \<Rightarrow> world \<Rightarrow> tracker \<times> world" where
  "connect_failed err t w =
     (t\<lparr>enabled := False, driver := None\<rparr>,
      console_log ''Disabling Neo4j Action Tracker and continuing without it''
        (console_log (''Failed to connect to Neo4j Action Tracker: '' @ err) w))"

definition connect :: "('j, 'sg) env \<Rightarrow> tracker \<Rightarrow> world \<Rightarrow> tracker \<times> world" where
  "connect e t w =
     (if disabled t then (t, console_log ''Neo4j Action Tracker is disabled - skipping connection'' w)
      else case request e w of
        (Some err, w1) \<Rightarrow> connect_failed err t w1
      | (None, w1) \<Rightarrow>
          (case initializeSchema e t (console_log ''Connected to Neo4j Action Tracker'' w1) of
             (Some err, w2) \<Rightarrow> connect_failed err t w2
           | (None, w2) \<Rightarrow> (t, w2)))"

definition close :: "('j, 'sg) env \<Rightarrow> tracker \<Rightarrow> world \<Rightarrow> tracker \<times> world" where
  "close e t w = (t, w)"

section \<open>Recording an action\<close>

record 'j action_input =
  userId :: string
  userName :: string
  mcpId :: string
  mcpType :: string
  mcpName :: string
  actionType :: string
  actionName :: string
  parameters :: 'j
  result :: 'j
  status :: status

text \<open>
  \<^verbatim>\<open>MERGE (user:User {id: $userId}) ON CREATE SET user.name = $userName,
  user.createdAt = $timestamp\<close>: the rows are the User nodes with that id; when there is
  none, one is created with the given name and creation time, and it is the only row.
  A node that is matched is not written to.
\<close>

definition merge_user :: "string \<Rightarrow> string \<Rightarrow> timestamp \<Rightarrow> graph \<Rightarrow> nat list \<times> graph" where
  "merge_user uid nm ts g =
     (let found = filter (\<lambda>i. user_id (users g ! i) = uid) [0..<length (users g)]
      in if found = []
         then ([length (users g)],
               g\<lparr>users := users g @ [\<lparr>user_id = uid, user_name = nm, user_createdAt = ts\<rparr>]\<rparr>)
         else (found, g))"

text \<open>
  \<^verbatim>\<open>MERGE (mcp:MCP {id: $mcpId}) ON CREATE SET mcp.type = $mcpType,
  mcp.name = $mcpName, mcp.createdAt = $timestamp\<close>, likewise.
\<close>

definition merge_mcp ::
  "string \<Rightarrow> string \<Rightarrow> string \<Rightarrow> timestamp \<Rightarrow> graph \<Rightarrow> nat list \<times> graph" where
  "merge_mcp mid ty nm ts g =
     (let found = filter (\<lambda>i. mcp_id (mcps g ! i) = mid) [0..<length (mcps g)]
      in if found = []
         then ([length (mcps g)],
               g\<lparr>mcps := mcps g @ [\<lparr>mcp_id = mid, mcp_type = ty, mcp_name = nm,
                                       mcp_createdAt = ts\<rparr>]\<rparr>)
         else (found, g))"

text \<open>
  \<^verbatim>\<open>CREATE (action:Action {...}) CREATE (user)-[:PERFORMED]->(action)
  CREATE (action)-[:USED]->(mcp)\<close> runs once for every row \<open>(user, mcp)\<close> of the two
  \<^verbatim>\<open>MERGE\<close> clauses: each row gets an Action node of its own and the two
  relationships of that node.
\<close>

fun create_actions :: "action_node \<Rightarrow> (nat \<times> nat) list \<Rightarrow> graph \<Rightarrow> graph" where
  "create_actions a [] g = g"
| "create_actions a ((u, m) # rows) g =
     create_actions a rows
       (g\<lparr>actions := actions g @ [a],
          performed := performed g @ [(u, length (actions g))],
          used := used g @ [(length (actions g), m)]\<rparr>)"

definition new_action ::
  "('j, 'sg) env \<Rightarrow> string \<Rightarrow> timestamp \<Rightarrow> 'j action_input \<Rightarrow> action_node" where
  "new_action e aid ts a =
     \<lparr>action_id = aid, action_type = actionType a, action_name = actionName a,
      action_parameters = stringify e (parameters a), action_result = stringify e (result a),
      action_status = status a, action_timestamp = ts\<rparr>"

text \<open>
  The statement of \<^verbatim>\<open>recordAction\<close> as a whole. The tracker sends it in one
  \<^verbatim>\<open>session.run\<close>, which the store executes as one transaction: a reader sees the
  graph before it or the graph after it.
\<close>

definition record_statement ::
  "('j, 'sg) env \<Rightarrow> string \<Rightarrow> timestamp \<Rightarrow> 'j action_input \<Rightarrow> graph \<Rightarrow> graph" where
  "record_statement e aid ts a g =
     (case merge_user (userId a) (userName a) ts g of
        (us, g1) \<Rightarrow>
          (case merge_mcp (mcpId a) (mcpType a) (mcpName a) ts g1 of
             (ms, g2) \<Rightarrow> create_actions (new_action e aid ts a) (List.product us ms) g2))"

definition recordAction ::
  "('j, 'sg) env \<Rightarrow> tracker \<Rightarrow> world \<Rightarrow> 'j action_input \<Rightarrow> ('j, 'sg) response \<times> world" where
  "recordAction e t w a =
     (if disabled t
      then (Recorded (uuidv4 e (uuid_calls w)) ''Action tracking is disabled - action not recorded'',
            w\<lparr>uuid_calls := Suc (uuid_calls w)\<rparr>)
      else
        (let actionId = uuidv4 e (uuid_calls w);
             timestamp = now w
         in case request e (w\<lparr>uuid_calls := Suc (uuid_calls w)\<rparr>) of
              (Some err, w1) \<Rightarrow>
                (Failed (''Failed to record action: '' @ err),
                 console_log (''Error recording action: '' @ err) w1)
            | (None, w1) \<Rightarrow>
                (Recorded actionId ''Action recorded successfully'',
                 w1\<lparr>db := record_statement e actionId timestamp a (db w1)\<rparr>)))"

section \<open>Reading the graph\<close>

subsection \<open>Clauses shared by the statements\<close>

text \<open>
  \<^verbatim>\<open>ORDER BY\<close>: a stable insertion sort, where \<open>le x y\<close> says that \<open>x\<close> may stand
  before \<open>y\<close>. The store leaves the order of rows with equal keys open; here they keep
  the order in which they were produced.
\<close>

fun insert_by :: "('a \<Rightarrow> 'a \<Rightarrow> bool) \<Rightarrow> 'a \<Rightarrow> 'a list \<Rightarrow> 'a list" where
  "insert_by le x [] = [x]"
| "insert_by le x (y # ys) = (if le x y then x # y # ys else y # insert_by le x ys)"

definition order_by :: "('a \<Rightarrow> 'a \<Rightarrow> bool) \<Rightarrow> 'a list \<Rightarrow> 'a list" where
  "order_by le rows = foldr (insert_by le) rows []"

text \<open>
  A \<^verbatim>\<open>RETURN\<close> with aggregates: the rows are grouped by the plain columns (\<open>key\<close>);
  each group gives \<^verbatim>\<open>COLLECT(DISTINCT ...)\<close> of a column (\<open>val\<close>) and the number of
  its rows.
\<close>

definition aggregate :: "('r \<Rightarrow> 'k) \<Rightarrow> ('r \<Rightarrow> 'v) \<Rightarrow> 'r list \<Rightarrow> ('k \<times> 'v list \<times> nat) list" where
  "aggregate key val rows =
     map (\<lambda>k. (k, remdups (map val (filter (\<lambda>r. key r = k) rows)),
                length (filter (\<lambda>r. key r = k) rows)))
       (remdups (map key rows))"

text \<open>
  \<^verbatim>\<open>toInt()\<close> of the driver's 64-bit integers, applied to a count: the low 32 bits,
  read as a signed number.
\<close>

definition toInt :: "nat \<Rightarrow> int" where
  "toInt n =
     (let low = int n mod 4294967296
      in if low < 2147483648 then low else low - 4294967296)"

text \<open>
  \<^verbatim>\<open>result.records.map(...)\<close> with a callback that may throw: the first exception
  ends the loop and is the outcome.
\<close>

fun map_or_throw :: "('a \<Rightarrow> string + 'b) \<Rightarrow> 'a list \<Rightarrow> string + 'b list" where
  "map_or_throw f [] = Inr []"
| "map_or_throw f (x # xs) =
     (case f x of
        Inl err \<Rightarrow> Inl err
      | Inr y \<Rightarrow> (case map_or_throw f xs of Inl err \<Rightarrow> Inl err | Inr ys \<Rightarrow> Inr (y # ys)))"

text \<open>
  \<^verbatim>\<open>{...action, parameters: JSON.parse(action.parameters), result:
  JSON.parse(action.result)}\<close>: the parameters are parsed first.
\<close>

definition parse_action :: "('j, 'sg) env \<Rightarrow> action_node \<Rightarrow> string + 'j parsed_action" where
  "parse_action e a =
     (case parse e (action_parameters a) of
        Inl err \<Rightarrow> Inl err
      | Inr p \<Rightarrow>
          (case parse e (action_result a) of
             Inl err \<Rightarrow> Inl err
           | Inr r \<Rightarrow>
               Inr \<lparr>pa_id = action_id a, pa_type = action_type a, pa_name = action_name a,
                    pa_parameters = p, pa_result = r, pa_status = action_status a,
                    pa_timestamp = action_timestamp a\<rparr>))"

subsection \<open>getRelatedActions\<close>

definition related_statement :: "('j, 'sg) env \<Rightarrow> string \<Rightarrow> int \<Rightarrow> graph \<Rightarrow> 'sg list" where
  "related_statement e aid maxDepth g =
     [subgraphAll e g a maxDepth. a \<leftarrow> [0..<length (actions g)], action_id (actions g ! a) = aid]"

definition getRelatedActions ::
  "('j, 'sg) env \<Rightarrow> tracker \<Rightarrow> world \<Rightarrow> string \<Rightarrow> int option \<Rightarrow> ('j, 'sg) response \<times> world" where
  "getRelatedActions e t w aid maxDepth =
     (if disabled t
      then (Failed ''Action tracking is disabled - cannot retrieve related actions'', w)
      else case request e w of
        (Some err, w1) \<Rightarrow>
          (Failed (''Failed to get related actions: '' @ err),
           console_log (''Error getting related actions: '' @ err) w1)
      | (None, w1) \<Rightarrow>
          (Related (case related_statement e aid (case maxDepth of None \<Rightarrow> 2 | Some d \<Rightarrow> d) (db w1) of
                      [] \<Rightarrow> None
                    | x # xs \<Rightarrow> Some x),
           w1))"

subsection \<open>findSimilarActions\<close>

text \<open>
  The rows \<open>(action, mcp, similarity)\<close> of
  \<^verbatim>\<open>MATCH (action:Action)-[:USED]->(mcp:MCP) WHERE mcp.type = $mcpType AND
  action.type = $actionType ... jaroWinklerDistance($parametersJson, action.parameters)
  YIELD similarity WHERE similarity > 0.7\<close>.
\<close>

definition similar_rows ::
  "('j, 'sg) env \<Rightarrow> string \<Rightarrow> string \<Rightarrow> string \<Rightarrow> graph \<Rightarrow> (nat \<times> nat \<times> rat) list" where
  "similar_rows e mty aty pj g =
     [(a, m, jaroWinklerDistance e pj (action_parameters (actions g ! a))).
        (a, m) \<leftarrow> used g,
        a < length (actions g) \<and> m < length (mcps g),
        mcp_type (mcps g ! m) = mty \<and> action_type (actions g ! a) = aty,
        7 / 10 < jaroWinklerDistance e pj (action_parameters (actions g ! a))]"

text \<open>\<^verbatim>\<open>ORDER BY similarity DESC, action.timestamp DESC LIMIT $limit\<close>.\<close>

definition similar_statement ::
  "('j, 'sg) env \<Rightarrow> string \<Rightarrow> string \<Rightarrow> string \<Rightarrow> nat \<Rightarrow> graph \<Rightarrow> (nat \<times> nat \<times> rat) list" where
  "similar_statement e mty aty pj limit g =
     take limit
       (order_by
          (\<lambda>(a, m, s) (a', m', s').
             s' < s \<or>
             s = s' \<and> action_timestamp (actions g ! a') \<le> action_timestamp (actions g ! a))
          (similar_rows e mty aty pj g))"

definition similar_record ::
  "('j, 'sg) env \<Rightarrow> graph \<Rightarrow> nat \<times> nat \<times> rat \<Rightarrow> string + 'j similar_action" where
  "similar_record e g row =
     (case row of
        (a, m, s) \<Rightarrow>
          (case parse_action e (actions g ! a) of
             Inl err \<Rightarrow> Inl err
           | Inr pa \<Rightarrow> Inr \<lparr>sa_action = pa, sa_mcp = mcps g ! m, sa_similarity = s\<rparr>))"

definition findSimilarActions ::
  "('j, 'sg) env \<Rightarrow> tracker \<Rightarrow> world \<Rightarrow> string \<Rightarrow> string \<Rightarrow> 'j \<Rightarrow> nat option \<Rightarrow>
     ('j, 'sg) response \<times> world" where
  "findSimilarActions e t w mty aty ps limit =
     (if disabled t
      then (Failed ''Action tracking is disabled - cannot find similar actions'', w)
      else case request e w of
        (Some err, w1) \<Rightarrow>
          (Failed (''Failed to find similar actions: '' @ err),
           console_log (''Error finding similar actions: '' @ err) w1)
      | (None, w1) \<Rightarrow>
          (case map_or_throw (similar_record e (db w1))
                  (similar_statement e mty aty (stringify e ps)
                     (case limit of None \<Rightarrow> 5 | Some n \<Rightarrow> n) (db w1)) of
             Inl err \<Rightarrow>
               (Failed (''Failed to find similar actions: '' @ err),
                console_log (''Error finding similar actions: '' @ err) w1)
           | Inr similarActions \<Rightarrow> (SimilarActions similarActions, w1)))"

subsection \<open>getUserActionHistory\<close>

text \<open>
  \<^verbatim>\<open>MATCH (user:User {id: $userId})-[:PERFORMED]->(action:Action)-[:USED]->(mcp:MCP)
  RETURN action, mcp ORDER BY action.timestamp DESC LIMIT $limit\<close>.
\<close>

definition history_statement :: "string \<Rightarrow> nat \<Rightarrow> graph \<Rightarrow> (nat \<times> nat) list" where
  "history_statement uid limit g =
     take limit
       (order_by
          (\<lambda>(a, m) (a', m').
             action_timestamp (actions g ! a') \<le> action_timestamp (actions g ! a))
          [(a, m).
             (u, a) \<leftarrow> performed g,
             u < length (users g) \<and> a < length (actions g),
             user_id (users g ! u) = uid,
             (a', m) \<leftarrow> used g,
             a' = a \<and> m < length (mcps g)])"

definition history_record ::
  "('j, 'sg) env \<Rightarrow> graph \<Rightarrow> nat \<times> nat \<Rightarrow> string + ('j parsed_action \<times> mcp_node)" where
  "history_record e g row =
     (case row of
        (a, m) \<Rightarrow>
          (case parse_action e (actions g ! a) of
             Inl err \<Rightarrow> Inl err
           | Inr pa \<Rightarrow> Inr (pa, mcps g ! m)))"

definition getUserActionHistory ::
  "('j, 'sg) env \<Rightarrow> tracker \<Rightarrow> world \<Rightarrow> string \<Rightarrow> nat option \<Rightarrow> ('j, 'sg) response \<times> world" where
  "getUserActionHistory e t w uid limit =
     (if disabled t
      then (Failed ''Action tracking is disabled - cannot retrieve user action history'', w)
      else case request e w of
        (Some err, w1) \<Rightarrow>
          (Failed (''Failed to get user action history: '' @ err),
           console_log (''Error getting user action history: '' @ err) w1)
      | (None, w1) \<Rightarrow>
          (case map_or_throw (history_record e (db w1))
                  (history_statement uid (case limit of None \<Rightarrow> 20 | Some n \<Rightarrow> n) (db w1)) of
             Inl err \<Rightarrow>
               (Failed (''Failed to get user action history: '' @ err),
                console_log (''Error getting user action history: '' @ err) w1)
           | Inr acts \<Rightarrow> (History acts, w1)))"

subsection \<open>suggestNextAction\<close>

text \<open>
  \<^verbatim>\<open>duration.between(datetime(a), datetime(b))\<close> of the store's query language, for
  two instants \<open>a \<le> b\<close> in UTC (which is what \<^verbatim>\<open>toISOString()\<close> writes): the
  difference is split into a calendar part, the whole months and then the whole days
  from \<open>a\<close> towards \<open>b\<close>, and a time part, the seconds and fractions that remain.
  Adding whole months and days to an instant in UTC moves it by a whole number of days,
  so the time part is the difference modulo one day. Only the total of the calendar
  part is kept here, in days. The component \<^verbatim>\<open>minutes\<close> of a duration is the number
  of whole minutes in its time part: the calendar part does not count towards it.
\<close>

record duration =
  dur_days :: nat
  dur_seconds :: nat
  dur_milliseconds :: nat

definition duration_between :: "timestamp \<Rightarrow> timestamp \<Rightarrow> duration" where
  "duration_between a b =
     \<lparr>dur_days = (b - a) div 86400000,
      dur_seconds = (b - a) mod 86400000 div 1000,
      dur_milliseconds = (b - a) mod 1000\<rparr>"

definition minutes :: "duration \<Rightarrow> nat" where
  "minutes d = dur_seconds d div 60"

text \<open>
  The rows \<open>(currentAction, nextAction)\<close> that reach the \<^verbatim>\<open>RETURN\<close> clause:
  \<^verbatim>\<open>MATCH (currentAction:Action {type: $currentActionType})-[:USED]->(mcp:MCP {type:
  $mcpType}) WHERE jaroWinklerDistance($currentParamsJson, currentAction.parameters) > 0.7
  MATCH (user:User)-[:PERFORMED]->(currentAction)
  MATCH (user)-[:PERFORMED]->(nextAction:Action)-[:USED]->(mcp)
  WHERE nextAction.timestamp > currentAction.timestamp
  WITH ..., duration.between(...) AS timeDiff WHERE timeDiff.minutes < 30\<close>.
  The parameter \<^verbatim>\<open>$userId\<close> is bound by the call and occurs nowhere in the statement.
\<close>

definition next_rows ::
  "('j, 'sg) env \<Rightarrow> string \<Rightarrow> string \<Rightarrow> string \<Rightarrow> graph \<Rightarrow> (nat \<times> nat) list" where
  "next_rows e mty cty pj g =
     [(c, n).
        (c, m) \<leftarrow> used g,
        c < length (actions g) \<and> m < length (mcps g),
        action_type (actions g ! c) = cty \<and> mcp_type (mcps g ! m) = mty,
        7 / 10 < jaroWinklerDistance e pj (action_parameters (actions g ! c)),
        (u, c') \<leftarrow> performed g,
        c' = c \<and> u < length (users g),
        (u', n) \<leftarrow> performed g,
        u' = u \<and> n < length (actions g),
        (n', m') \<leftarrow> used g,
        n' = n \<and> m' = m,
        action_timestamp (actions g ! c) < action_timestamp (actions g ! n),
        minutes (duration_between (action_timestamp (actions g ! c))
                   (action_timestamp (actions g ! n))) < 30]"

text \<open>
  \<^verbatim>\<open>RETURN nextAction.type, nextAction.name, COLLECT(DISTINCT nextAction.parameters),
  COUNT(nextAction) AS frequency ORDER BY frequency DESC LIMIT 3\<close>.
\<close>

definition suggest_statement ::
  "('j, 'sg) env \<Rightarrow> string \<Rightarrow> string \<Rightarrow> string \<Rightarrow> string \<Rightarrow> graph \<Rightarrow>
     ((string \<times> string) \<times> string list \<times> nat) list" where
  "suggest_statement e uid mty cty pj g =
     take 3
       (order_by (\<lambda>(k, ps, n) (k', ps', n'). n' \<le> n)
          (aggregate
             (\<lambda>(c, n). (action_type (actions g ! n), action_name (actions g ! n)))
             (\<lambda>(c, n). action_parameters (actions g ! n))
             (next_rows e mty cty pj g)))"

definition suggestion_record ::
  "('j, 'sg) env \<Rightarrow> (string \<times> string) \<times> string list \<times> nat \<Rightarrow> string + 'j suggestion" where
  "suggestion_record e row =
     (case row of
        ((ty, nm), ps, n) \<Rightarrow>
          (case map_or_throw (parse e) ps of
             Inl err \<Rightarrow> Inl err
           | Inr js \<Rightarrow>
               Inr \<lparr>sg_actionType = ty, sg_actionName = nm, sg_possibleParameters = js,
                    sg_frequency = toInt n\<rparr>))"

definition suggestNextAction ::
  "('j, 'sg) env \<Rightarrow> tracker \<Rightarrow> world \<Rightarrow> string \<Rightarrow> string \<Rightarrow> string \<Rightarrow> 'j \<Rightarrow>
     ('j, 'sg) response \<times> world" where
  "suggestNextAction e t w uid mty cty ps =
     (if disabled t
      then (Failed ''Action tracking is disabled - cannot suggest next action'', w)
      else case request e w of
        (Some err, w1) \<Rightarrow>
          (Failed (''Failed to suggest next action: '' @ err),
           console_log (''Error suggesting next action: '' @ err) w1)
      | (None, w1) \<Rightarrow>
          (case map_or_throw (suggestion_record e)
                  (suggest_statement e uid mty cty (stringify e ps) (db w1)) of
             Inl err \<Rightarrow>
               (Failed (''Failed to suggest next action: '' @ err),
                console_log (''Error suggesting next action: '' @ err) w1)
           | Inr suggestions \<Rightarrow> (Suggestions suggestions, w1)))"

subsection \<open>getActionRecommendations\<close>

text \<open>
  \<^verbatim>\<open>CALL db.index.fulltext.queryNodes("actionContext", $context) YIELD node as action
  MATCH (action)-[:USED]->(mcp:MCP) MATCH (user:User)-[:PERFORMED]->(action)
  RETURN mcp.type, mcp.name, action.type, action.name,
  COLLECT(DISTINCT action.parameters), COUNT(action) AS frequency
  ORDER BY frequency DESC LIMIT 5\<close>. Here too \<^verbatim>\<open>$userId\<close> is bound and not used.
\<close>

definition recommend_rows :: "('j, 'sg) env \<Rightarrow> string \<Rightarrow> graph \<Rightarrow> (nat \<times> nat \<times> nat) list" where
  "recommend_rows e ctx g =
     [(a, m, u).
        a \<leftarrow> queryNodes e ctx (actions g),
        a < length (actions g),
        (a', m) \<leftarrow> used g,
        a' = a \<and> m < length (mcps g),
        (u, a'') \<leftarrow> performed g,
        a'' = a \<and> u < length (users g)]"

definition recommend_statement ::
  "('j, 'sg) env \<Rightarrow> string \<Rightarrow> string \<Rightarrow> graph \<Rightarrow>
     ((string \<times> string \<times> string \<times> string) \<times> string list \<times> nat) list" where
  "recommend_statement e uid ctx g =
     take 5
       (order_by (\<lambda>(k, ps, n) (k', ps', n'). n' \<le> n)
          (aggregate
             (\<lambda>(a, m, u). (mcp_type (mcps g ! m), mcp_name (mcps g ! m),
                            action_type (actions g ! a), action_name (actions g ! a)))
             (\<lambda>(a, m, u). action_parameters (actions g ! a))
             (recommend_rows e ctx g)))"

definition recommendation_record ::
  "('j, 'sg) env \<Rightarrow> (string \<times> string \<times> string \<times> string) \<times> string list \<times> nat \<Rightarrow>
     string + 'j recommendation" where
  "recommendation_record e row =
     (case row of
        ((mty, mnm, aty, anm), ps, n) \<Rightarrow>
          (case map_or_throw (parse e) ps of
             Inl err \<Rightarrow> Inl err
           | Inr js \<Rightarrow>
               Inr \<lparr>rc_mcpType = mty, rc_mcpName = mnm, rc_actionType = aty,
                    rc_actionName = anm, rc_parameterSamples = js, rc_frequency = toInt n\<rparr>))"

definition getActionRecommendations ::
  "('j, 'sg) env \<Rightarrow> tracker \<Rightarrow> world \<Rightarrow> string \<Rightarrow> string \<Rightarrow> ('j, 'sg) response \<times> world" where
  "getActionRecommendations e t w uid ctx =
     (if disabled t
      then (Failed ''Action tracking is disabled - cannot get action recommendations'', w)
      else case request e w of
        (Some err, w1) \<Rightarrow>
          (Failed (''Failed to get action recommendations: '' @ err),
           console_log (''Error getting action recommendations: '' @ err) w1)
      | (None, w1) \<Rightarrow>
          (case map_or_throw (recommendation_record e)
                  (recommend_statement e uid ctx (db w1)) of
             Inl err \<Rightarrow>
               (Failed (''Failed to get action recommendations: '' @ err),
                console_log (''Error getting action recommendations: '' @ err) w1)
           | Inr recommendations \<Rightarrow> (Recommendations recommendations, w1)))"

section \<open>A process using the tracker\<close>

text \<open>
  The calls that a host process can make on a tracker object, and the run of a list of
  calls in turn. \<^verbatim>\<open>connect\<close> and \<^verbatim>\<open>close\<close> return nothing.
\<close>

datatype 'j call =
    Connect
  | Close
  | RecordAction "'j action_input"
  | GetRelatedActions string "int option"
  | FindSimilarActions string string 'j "nat option"
  | GetUserActionHistory string "nat option"
  | SuggestNextAction string string string 'j
  | GetActionRecommendations string string

fun exec ::
  "('j, 'sg) env \<Rightarrow> 'j call \<Rightarrow> tracker \<times> world \<Rightarrow> ('j, 'sg) response option \<times> tracker \<times> world" where
  "exec e Connect (t, w) = (case connect e t w of (t', w') \<Rightarrow> (None, t', w'))"
| "exec e Close (t, w) = (case close e t w of (t', w') \<Rightarrow> (None, t', w'))"
| "exec e (RecordAction a) (t, w) = (case recordAction e t w a of (r, w') \<Rightarrow> (Some r, t, w'))"
| "exec e (GetRelatedActions aid maxDepth) (t, w) =
     (case getRelatedActions e t w aid maxDepth of (r, w') \<Rightarrow> (Some r, t, w'))"
| "exec e (FindSimilarActions mty aty ps limit) (t, w) =
     (case findSimilarActions e t w mty aty ps limit of (r, w') \<Rightarrow> (Some r, t, w'))"
| "exec e (GetUserActionHistory uid limit) (t, w) =
     (case getUserActionHistory e t w uid limit of (r, w') \<Rightarrow> (Some r, t, w'))"
| "exec e (SuggestNextAction uid mty cty ps) (t, w) =
     (case suggestNextAction e t w uid mty cty ps of (r, w') \<Rightarrow> (Some r, t, w'))"
| "exec e (GetActionRecommendations uid ctx) (t, w) =
     (case getActionRecommendations e t w uid ctx of (r, w') \<Rightarrow> (Some r, t, w'))"

fun run ::
  "('j, 'sg) env \<Rightarrow> 'j call list \<Rightarrow> tracker \<times> world \<Rightarrow>
     ('j, 'sg) response option list \<times> tracker \<times> world" where
  "run e [] tw = ([], tw)"
| "run e (c # cs) tw =
     (case exec e c tw of
        (r, tw') \<Rightarrow> (case run e cs tw' of (rs, tw'') \<Rightarrow> (r # rs, tw'')))"

section \<open>Properties of the graph\<close>

text \<open>
  The users that performed an action and the backends that it used, read off the
  relationships of the graph.
\<close>

definition performers :: "graph \<Rightarrow> nat \<Rightarrow> nat list" where
  "performers g a = map fst (filter (\<lambda>r. snd r = a) (performed g))"

definition targets :: "graph \<Rightarrow> nat \<Rightarrow> nat list" where
  "targets g a = map snd (filter (\<lambda>r. fst r = a) (used g))"

text \<open>Every relationship joins two nodes of the graph.\<close>

definition edges_ok :: "graph \<Rightarrow> bool" where
  "edges_ok g =
     (list_all (\<lambda>r. fst r < length (users g) \<and> snd r < length (actions g)) (performed g) \<and>
      list_all (\<lambda>r. fst r < length (actions g) \<and> snd r < length (mcps g)) (used g))"

text \<open>Every action has exactly one \<^verbatim>\<open>PERFORMED\<close> and exactly one \<^verbatim>\<open>USED\<close> relationship.\<close>

definition no_orphans :: "graph \<Rightarrow> bool" where
  "no_orphans g =
     list_all (\<lambda>a. length (performers g a) = 1 \<and> length (targets g a) = 1)
       [0..<length (actions g)]"

text \<open>
  The action at position \<open>i\<close> has one performer, a user with the \<^verbatim>\<open>userId\<close> of the
  call, and one target, a backend with the \<^verbatim>\<open>mcpId\<close> of the call.
\<close>

definition created_for :: "'j action_input \<Rightarrow> graph \<Rightarrow> nat \<Rightarrow> bool" where
  "created_for a g i =
     (case (performers g i, targets g i) of
        ([u], [m]) \<Rightarrow> u < length (users g) \<and> user_id (users g ! u) = userId a \<and>
                      m < length (mcps g) \<and> mcp_id (mcps g ! m) = mcpId a
      | _ \<Rightarrow> False)"

definition created_by :: "'j action_input \<Rightarrow> graph \<Rightarrow> graph \<Rightarrow> bool" where
  "created_by a g g' = list_all (created_for a g') [length (actions g)..<length (actions g')]"

text \<open>What the \<^verbatim>\<open>CREATE\<close> clauses add for one row \<open>(user, mcp)\<close>.\<close>

definition add_row :: "action_node \<Rightarrow> nat \<Rightarrow> nat \<Rightarrow> graph \<Rightarrow> graph" where
  "add_row a u m g =
     g\<lparr>actions := actions g @ [a],
       performed := performed g @ [(u, length (actions g))],
       used := used g @ [(length (actions g), m)]\<rparr>"

text \<open>
  \<^verbatim>\<open>recordAction\<close> is the only method that writes to the graph. \<open>evolves e g g'\<close>: the
  graph \<open>g'\<close> comes from \<open>g\<close> by calls of it, from any tracker object and at any time.
\<close>

inductive evolves :: "('j, 'sg) env \<Rightarrow> graph \<Rightarrow> graph \<Rightarrow> bool"
  for e :: "('j, 'sg) env" and g :: graph where
  same: "evolves e g g"
| recorded: "evolves e g (db w) \<Longrightarrow> recordAction e t w a = (r, w') \<Longrightarrow> evolves e g (db w')"

definition reachable :: "('j, 'sg) env \<Rightarrow> graph \<Rightarrow> bool" where
  "reachable e g = evolves e empty_graph g"

section \<open>Properties of the answers\<close>

definition disabled_message :: "string \<Rightarrow> bool" where
  "disabled_message m = prefix ''Action tracking is disabled'' m"

text \<open>
  What a call gives on a disabled tracker: nothing for \<^verbatim>\<open>connect\<close> and
  \<^verbatim>\<open>close\<close>, and an answer whose message says that tracking is disabled for the
  others.
\<close>

fun disabled_outcome :: "'j call \<Rightarrow> ('j, 'sg) response option \<Rightarrow> bool" where
  "disabled_outcome Connect r = (r = None)"
| "disabled_outcome Close r = (r = None)"
| "disabled_outcome c r =
     (case r of
        None \<Rightarrow> False
      | Some resp \<Rightarrow>
          (case response_message resp of None \<Rightarrow> False | Some m \<Rightarrow> disabled_message m))"

definition skipped_connections :: "'j call list \<Rightarrow> string list" where
  "skipped_connections cs =
     concat (map (\<lambda>c. case c of
                         Connect \<Rightarrow> [''Neo4j Action Tracker is disabled - skipping connection'']
                       | _ \<Rightarrow> []) cs)"

section \<open>The similarity of two strings\<close>

text \<open>
  Modelled from the spec: the string-similarity function of the store
  (\<^verbatim>\<open>apoc.text.jaroWinklerDistance\<close>) is not part of the repository. The spec
  describes it as the Jaro-Winkler metric on the serialized representations, with a
  score between 0 and 1. \<open>jaro_matches d s1 s2 i taken\<close> pairs the characters of \<open>s1\<close>,
  from position \<open>i\<close> on, with the first equal character of \<open>s2\<close> that is not taken
  yet and lies at most \<open>d\<close> positions away; half of the matched characters that stand
  in a different order are the transpositions; a common prefix of up to four
  characters raises the score by a tenth of what is missing to 1 for each character.
\<close>

fun jaro_matches :: "nat \<Rightarrow> string \<Rightarrow> string \<Rightarrow> nat \<Rightarrow> nat list \<Rightarrow> (nat \<times> nat) list" where
  "jaro_matches d [] s2 i taken = []"
| "jaro_matches d (c # cs) s2 i taken =
     (case find (\<lambda>j. j \<notin> set taken \<and> s2 ! j = c) [i - d..<min (Suc (i + d)) (length s2)] of
        None \<Rightarrow> jaro_matches d cs s2 (Suc i) taken
      | Some j \<Rightarrow> (i, j) # jaro_matches d cs s2 (Suc i) (j # taken))"

definition jaro_transpositions :: "string \<Rightarrow> string \<Rightarrow> (nat \<times> nat) list \<Rightarrow> nat" where
  "jaro_transpositions s1 s2 ms =
     length (filter (\<lambda>(c, c'). c \<noteq> c')
               (zip (map (\<lambda>(i, j). s1 ! i) ms) (map (\<lambda>j. s2 ! j) (sort (map snd ms))))) div 2"

definition jaro :: "string \<Rightarrow> string \<Rightarrow> rat" where
  "jaro s1 s2 =
     (let ms = jaro_matches (max (length s1) (length s2) div 2 - 1) s1 s2 0 [];
          m = length ms;
          t = jaro_transpositions s1 s2 ms
      in if m = 0 then 0
         else (of_nat m / of_nat (length s1) + of_nat m / of_nat (length s2) +
               of_nat (m - t) / of_nat m) / 3)"

definition common_prefix :: "string \<Rightarrow> string \<Rightarrow> nat" where
  "common_prefix s1 s2 = length (takeWhile (\<lambda>(c, c'). c = c') (zip s1 s2))"

definition jaro_winkler :: "string \<Rightarrow> string \<Rightarrow> rat" where
  "jaro_winkler s1 s2 =
     (let j = jaro s1 s2
      in j + of_nat (min 4 (common_prefix s1 s2)) * (1 / 10) * (1 - j))"

section \<open>Properties of the queries\<close>

text \<open>
  A stored action whose \<^verbatim>\<open>parameters\<close> or \<^verbatim>\<open>result\<close> string \<^verbatim>\<open>JSON.parse\<close>
  rejects, and the actions of the records that the statements of
  \<^verbatim>\<open>findSimilarActions\<close> and \<^verbatim>\<open>getUserActionHistory\<close> return.
\<close>

definition undeserializable :: "('j, 'sg) env \<Rightarrow> action_node \<Rightarrow> bool" where
  "undeserializable e a = (isl (parse e (action_parameters a)) \<or> isl (parse e (action_result a)))"

definition similar_matches ::
  "('j, 'sg) env \<Rightarrow> string \<Rightarrow> string \<Rightarrow> 'j \<Rightarrow> nat option \<Rightarrow> graph \<Rightarrow> action_node list" where
  "similar_matches e mty aty ps limit g =
     map (\<lambda>row. actions g ! fst row)
       (similar_statement e mty aty (stringify e ps) (case limit of None \<Rightarrow> 5 | Some n \<Rightarrow> n) g)"

definition history_matches :: "string \<Rightarrow> nat option \<Rightarrow> graph \<Rightarrow> action_node list" where
  "history_matches uid limit g =
     map (\<lambda>row. actions g ! fst row)
       (history_statement uid (case limit of None \<Rightarrow> 20 | Some n \<Rightarrow> n) g)"

section \<open>Examples\<close>

text \<open>
  A store that answers every request, with JSON values kept as their text; a store that
  is down; a tracker that was given all three connection parameters; and a first call of
  \<^verbatim>\<open>recordAction\<close> on an empty graph.
\<close>

definition example_env :: "(string, unit) env" where
  "example_env =
     \<lparr>stringify = (\<lambda>j. j),
      parse = (\<lambda>s. if s = ''{'' then Inl ''SyntaxError: Unexpected end of JSON input'' else Inr s),
      jaroWinklerDistance = jaro_winkler,
      queryNodes = (\<lambda>q as. filter (\<lambda>i. action_name (as ! i) = q) [0..<length as]),
      subgraphAll = (\<lambda>g a d. ()),
      uuidv4 = (\<lambda>n. ''action-'' @ replicate n CHR ''i''),
      store_error = (\<lambda>n. None)\<rparr>"

definition example_down :: "(string, unit) env" where
  "example_down = example_env\<lparr>store_error := (\<lambda>n. Some ''ServiceUnavailable'')\<rparr>"

definition example_world :: world where
  "example_world = \<lparr>db = empty_graph, now = 1000, uuid_calls = 0, store_calls = 0, console = []\<rparr>"

definition example_tracker :: tracker where
  "example_tracker =
     \<lparr>driver = Some \<lparr>driver_uri = ''bolt://localhost:7687'', driver_username = ''neo4j'',
                      driver_password = ''secret''\<rparr>,
      enabled = True\<rparr>"

definition example_input :: "string action_input" where
  "example_input =
     \<lparr>userId = ''u1'', userName = ''Ada'', mcpId = ''dynamodb-mcp-server'', mcpType = ''DynamoDB'',
      mcpName = ''AWS DynamoDB'', actionType = ''query'', actionName = ''query_table'',
      parameters = ''{}'', result = ''[]'', status = success\<rparr>"

definition example_later :: world where
  "example_later =
     (snd (recordAction example_env example_tracker example_world example_input))\<lparr>now := 2000\<rparr>"

text \<open>
  A graph with one user and one backend. The user ran a \<^verbatim>\<open>query\<close> at the instant
  \<open>1000\<close> and an \<^verbatim>\<open>export\<close> one day and ten minutes later.
\<close>

definition example_user :: user_node where
  "example_user = \<lparr>user_id = ''u1'', user_name = ''Ada'', user_createdAt = 1000\<rparr>"

definition example_mcp :: mcp_node where
  "example_mcp =
     \<lparr>mcp_id = ''dynamodb-mcp-server'', mcp_type = ''DynamoDB'', mcp_name = ''AWS DynamoDB'',
      mcp_createdAt = 1000\<rparr>"

definition example_query :: "string \<Rightarrow> string \<Rightarrow> timestamp \<Rightarrow> action_node" where
  "example_query aid res ts =
     \<lparr>action_id = aid, action_type = ''query'', action_name = ''query_table'',
      action_parameters = ''{}'', action_result = res, action_status = success,
      action_timestamp = ts\<rparr>"

definition example_export :: "string \<Rightarrow> timestamp \<Rightarrow> action_node" where
  "example_export aid ts =
     \<lparr>action_id = aid, action_type = ''export'', action_name = ''export_table'',
      action_parameters = ''{}'', action_result = ''[]'', action_status = success,
      action_timestamp = ts\<rparr>"

definition example_graph :: "action_node list \<Rightarrow> graph" where
  "example_graph as =
     \<lparr>users = [example_user], mcps = [example_mcp], actions = as,
      performed = map (\<lambda>a. (0, a)) [0..<length as],
      used = map (\<lambda>a. (a, 0)) [0..<length as]\<rparr>"

definition next_day_world :: world where
  "next_day_world =
     example_world\<lparr>db := example_graph [example_query ''a1'' ''[]'' 1000,
                                         example_export ''a2'' 87001000]\<rparr>"

text \<open>Two recorded queries with the same parameters.\<close>

definition twice_world :: world where
  "twice_world =
     example_world\<lparr>db := example_graph [example_query ''a1'' ''[]'' 1000,
                                         example_query ''a2'' ''[]'' 2000]\<rparr>"

text \<open>A recorded query whose stored result is not JSON.\<close>

definition broken_world :: world where
  "broken_world = example_world\<lparr>db := example_graph [example_query ''a1'' ''{'' 1000]\<rparr>"

text \<open>One call of every method.\<close>

definition example_calls :: "string call list" where
  "example_calls =
     [Connect, RecordAction example_input, FindSimilarActions ''DynamoDB'' ''query'' ''{}'' None,
      SuggestNextAction ''u1'' ''DynamoDB'' ''query'' ''{}'', GetUserActionHistory ''u1'' None,
      GetActionRecommendations ''u1'' ''query_table'', GetRelatedActions ''a1'' None, Close]"

text \<open>The record that \<^verbatim>\<open>findSimilarActions\<close> returns for one of the two queries.\<close>

definition twice_row :: "string \<Rightarrow> timestamp \<Rightarrow> string similar_action" where
  "twice_row aid ts =
     \<lparr>sa_action = \<lparr>pa_id = aid, pa_type = ''query'', pa_name = ''query_table'',
                    pa_parameters = ''{}'', pa_result = ''[]'', pa_status = success,
                    pa_timestamp = ts\<rparr>,
      sa_mcp = example_mcp, sa_similarity = 1\<rparr>"

section \<open>Recording keeps every action linked\<close>

lemma no_position_iff:
  "(filter (\<lambda>i. f (xs ! i) = k) [0..<length xs] = []) = (\<forall>x\<in>set xs. f x \<noteq> k)"
  by (auto simp: filter_empty_conv all_set_conv_all_nth)

lemma merge_user_frame:
  assumes "merge_user uid nm ts g = (us, g1)"
  shows "mcps g1 = mcps g \<and> actions g1 = actions g \<and> performed g1 = performed g \<and> used g1 = used g"
  using assms by (auto simp: merge_user_def Let_def split: if_splits)

lemma merge_user_rows:
  assumes "merge_user uid nm ts g = (us, g1)"
  shows "us \<noteq> [] \<and> (\<forall>u\<in>set us. u < length (users g1) \<and> user_id (users g1 ! u) = uid)"
  using assms by (auto simp: merge_user_def Let_def nth_append split: if_splits)

lemma merge_user_users:
  assumes "merge_user uid nm ts g = (us, g1)"
  shows "users g1 =
           (if \<exists>u\<in>set (users g). user_id u = uid then users g
            else users g @ [\<lparr>user_id = uid, user_name = nm, user_createdAt = ts\<rparr>])"
  using assms unfolding merge_user_def Let_def no_position_iff
  by (auto split: if_splits)

lemma merge_mcp_frame:
  assumes "merge_mcp mid ty nm ts g = (ms, g1)"
  shows "users g1 = users g \<and> actions g1 = actions g \<and> performed g1 = performed g \<and> used g1 = used g"
  using assms by (auto simp: merge_mcp_def Let_def split: if_splits)

lemma merge_mcp_rows:
  assumes "merge_mcp mid ty nm ts g = (ms, g1)"
  shows "ms \<noteq> [] \<and> (\<forall>m\<in>set ms. m < length (mcps g1) \<and> mcp_id (mcps g1 ! m) = mid)"
  using assms by (auto simp: merge_mcp_def Let_def nth_append split: if_splits)

lemma merge_mcp_mcps:
  assumes "merge_mcp mid ty nm ts g = (ms, g1)"
  shows "mcps g1 =
           (if \<exists>m\<in>set (mcps g). mcp_id m = mid then mcps g
            else mcps g @ [\<lparr>mcp_id = mid, mcp_type = ty, mcp_name = nm, mcp_createdAt = ts\<rparr>])"
  using assms unfolding merge_mcp_def Let_def no_position_iff
  by (auto split: if_splits)

lemma create_actions_frame:
  "users (create_actions a rows g) = users g \<and> mcps (create_actions a rows g) = mcps g \<and>
   length (actions (create_actions a rows g)) = length (actions g) + length rows"
  by (induction a rows g rule: create_actions.induct) auto


lemma create_actions_Cons:
  "create_actions a ((u, m) # rows) g = create_actions a rows (add_row a u m g)"
  by (simp add: add_row_def)

lemma performers_add_row:
  assumes "edges_ok g"
  shows "performers (add_row a u m g) i = (if i = length (actions g) then [u] else performers g i)"
proof -
  have "\<forall>r\<in>set (performed g). snd r \<noteq> length (actions g)"
    using assms by (auto simp: edges_ok_def list_all_iff)
  then have "filter (\<lambda>r. snd r = length (actions g)) (performed g) = []"
    by (simp add: filter_empty_conv)
  then show ?thesis
    by (simp add: performers_def add_row_def)
qed

lemma targets_add_row:
  assumes "edges_ok g"
  shows "targets (add_row a u m g) i = (if i = length (actions g) then [m] else targets g i)"
proof -
  have "\<forall>r\<in>set (used g). fst r \<noteq> length (actions g)"
    using assms by (auto simp: edges_ok_def list_all_iff)
  then have "filter (\<lambda>r. fst r = length (actions g)) (used g) = []"
    by (simp add: filter_empty_conv)
  then show ?thesis
    by (simp add: targets_def add_row_def)
qed

lemma edges_ok_add_row:
  assumes "edges_ok g" "u < length (users g)" "m < length (mcps g)"
  shows "edges_ok (add_row a u m g)"
  using assms by (auto simp: edges_ok_def add_row_def list_all_iff)

lemma no_orphans_add_row:
  assumes "edges_ok g" "no_orphans g"
  shows "no_orphans (add_row a u m g)"
proof -
  have "length (actions (add_row a u m g)) = Suc (length (actions g))"
    by (simp add: add_row_def)
  then show ?thesis
    using assms(2) by (simp add: no_orphans_def list_all_iff performers_add_row [OF assms(1)]
        targets_add_row [OF assms(1)])
qed

lemma add_row_frame:
  "users (add_row a u m g) = users g \<and> mcps (add_row a u m g) = mcps g \<and>
   length (actions (add_row a u m g)) = Suc (length (actions g))"
  by (simp add: add_row_def)

lemma create_actions_invariant:
  assumes "edges_ok g" "no_orphans g"
    and "\<forall>r\<in>set rows. fst r < length (users g) \<and> snd r < length (mcps g)"
  shows "edges_ok (create_actions a rows g) \<and> no_orphans (create_actions a rows g)"
  using assms
proof (induction a rows g rule: create_actions.induct)
  case (1 a g)
  then show ?case by simp
next
  case (2 a u m rows g)
  have "edges_ok (add_row a u m g)" "no_orphans (add_row a u m g)"
    using "2.prems" by (simp_all add: edges_ok_add_row no_orphans_add_row)
  moreover have "\<forall>r\<in>set rows. fst r < length (users (add_row a u m g)) \<and>
      snd r < length (mcps (add_row a u m g))"
    using "2.prems"(3) by (simp add: add_row_frame)
  ultimately show ?case
    using "2.IH" by (simp add: add_row_def)
qed

lemma created_for_add_row:
  assumes "edges_ok g"
  shows "created_for inp (add_row a u m g) i =
     (if i = length (actions g)
      then u < length (users g) \<and> user_id (users g ! u) = userId inp \<and>
           m < length (mcps g) \<and> mcp_id (mcps g ! m) = mcpId inp
      else created_for inp g i)"
  by (simp add: created_for_def performers_add_row [OF assms] targets_add_row [OF assms]
      add_row_frame cong: list.case_cong)

lemma create_actions_created:
  assumes "edges_ok g"
    and "\<forall>r\<in>set rows. fst r < length (users g) \<and> user_id (users g ! fst r) = userId inp \<and>
           snd r < length (mcps g) \<and> mcp_id (mcps g ! snd r) = mcpId inp"
    and "\<forall>i. n \<le> i \<and> i < length (actions g) \<longrightarrow> created_for inp g i"
  shows "\<forall>i. n \<le> i \<and> i < length (actions (create_actions a rows g)) \<longrightarrow>
           created_for inp (create_actions a rows g) i"
  using assms
proof (induction a rows g rule: create_actions.induct)
  case (1 a g)
  then show ?case by simp
next
  case (2 a u m rows g)
  have ok: "edges_ok (add_row a u m g)"
    using "2.prems" by (simp add: edges_ok_add_row)
  have rows: "\<forall>r\<in>set rows. fst r < length (users (add_row a u m g)) \<and>
      user_id (users (add_row a u m g) ! fst r) = userId inp \<and>
      snd r < length (mcps (add_row a u m g)) \<and>
      mcp_id (mcps (add_row a u m g) ! snd r) = mcpId inp"
    using "2.prems"(2) by (simp add: add_row_frame)
  have old: "\<forall>i. n \<le> i \<and> i < length (actions (add_row a u m g)) \<longrightarrow>
      created_for inp (add_row a u m g) i"
    using "2.prems" by (auto simp: created_for_add_row add_row_frame less_Suc_eq)
  show ?case
    using "2.IH" [OF ok [unfolded add_row_def] rows [unfolded add_row_def] old [unfolded add_row_def]]
    by simp
qed


lemma record_statement_users:
  "users (record_statement e aid ts a g) =
     (if \<exists>u\<in>set (users g). user_id u = userId a then users g
      else users g @ [\<lparr>user_id = userId a, user_name = userName a, user_createdAt = ts\<rparr>])"
proof -
  obtain us g1 where m1: "merge_user (userId a) (userName a) ts g = (us, g1)"
    by (cases "merge_user (userId a) (userName a) ts g")
  obtain ms g2 where m2: "merge_mcp (mcpId a) (mcpType a) (mcpName a) ts g1 = (ms, g2)"
    by (cases "merge_mcp (mcpId a) (mcpType a) (mcpName a) ts g1")
  have "users (record_statement e aid ts a g) = users g1"
    by (simp add: record_statement_def m1 m2 create_actions_frame merge_mcp_frame [OF m2])
  then show ?thesis
    by (simp only: merge_user_users [OF m1])
qed

lemma record_statement_mcps:
  "mcps (record_statement e aid ts a g) =
     (if \<exists>m\<in>set (mcps g). mcp_id m = mcpId a then mcps g
      else mcps g @ [\<lparr>mcp_id = mcpId a, mcp_type = mcpType a, mcp_name = mcpName a,
                       mcp_createdAt = ts\<rparr>])"
proof -
  obtain us g1 where m1: "merge_user (userId a) (userName a) ts g = (us, g1)"
    by (cases "merge_user (userId a) (userName a) ts g")
  obtain ms g2 where m2: "merge_mcp (mcpId a) (mcpType a) (mcpName a) ts g1 = (ms, g2)"
    by (cases "merge_mcp (mcpId a) (mcpType a) (mcpName a) ts g1")
  have "mcps (record_statement e aid ts a g) = mcps g2"
    by (simp add: record_statement_def m1 m2 create_actions_frame)
  then show ?thesis
    by (simp only: merge_mcp_mcps [OF m2] merge_user_frame [OF m1])
qed

lemma record_statement_invariant:
  assumes "edges_ok g" "no_orphans g"
  shows "edges_ok (record_statement e aid ts a g) \<and> no_orphans (record_statement e aid ts a g) \<and>
         created_by a g (record_statement e aid ts a g) \<and>
         length (actions g) < length (actions (record_statement e aid ts a g))"
proof -
  obtain us g1 where m1: "merge_user (userId a) (userName a) ts g = (us, g1)"
    by (cases "merge_user (userId a) (userName a) ts g")
  obtain ms g2 where m2: "merge_mcp (mcpId a) (mcpType a) (mcpName a) ts g1 = (ms, g2)"
    by (cases "merge_mcp (mcpId a) (mcpType a) (mcpName a) ts g1")
  let ?rows = "List.product us ms"
  let ?g' = "create_actions (new_action e aid ts a) ?rows g2"
  have eq: "record_statement e aid ts a g = ?g'"
    by (simp add: record_statement_def m1 m2)
  have f1: "actions g1 = actions g" "performed g1 = performed g" "used g1 = used g"
    "mcps g1 = mcps g"
    using merge_user_frame [OF m1] by simp_all
  have f2: "actions g2 = actions g" "performed g2 = performed g" "used g2 = used g"
    "users g2 = users g1"
    using merge_mcp_frame [OF m2] f1 by simp_all
  have len1: "length (users g) \<le> length (users g1)"
    by (simp add: merge_user_users [OF m1])
  have len2: "length (mcps g) \<le> length (mcps g2)"
    by (simp add: merge_mcp_mcps [OF m2] f1)
  have ok2: "edges_ok g2"
    using assms(1) len1 len2 unfolding edges_ok_def list_all_iff f2 by fastforce
  have no2: "no_orphans g2"
    using assms(2) by (simp add: no_orphans_def performers_def targets_def f2)
  have rows: "\<forall>r\<in>set ?rows. fst r < length (users g2) \<and>
      user_id (users g2 ! fst r) = userId a \<and>
      snd r < length (mcps g2) \<and> mcp_id (mcps g2 ! snd r) = mcpId a"
    using merge_user_rows [OF m1] merge_mcp_rows [OF m2] by (auto simp: f2)
  have nonempty: "us \<noteq> [] \<and> ms \<noteq> []"
    using merge_user_rows [OF m1] merge_mcp_rows [OF m2] by simp
  have inv: "edges_ok ?g' \<and> no_orphans ?g'"
    using create_actions_invariant [OF ok2 no2, of ?rows] rows by blast
  have vac: "\<forall>i. length (actions g) \<le> i \<and> i < length (actions g2) \<longrightarrow> created_for a g2 i"
    by (auto simp: f2)
  have "\<forall>i. length (actions g) \<le> i \<and> i < length (actions ?g') \<longrightarrow>
      created_for a ?g' i"
    by (rule create_actions_created [OF ok2 rows vac])
  then have cr: "created_by a g ?g'"
    by (simp add: created_by_def list_all_iff)
  have "length (actions g) < length (actions ?g')"
    using nonempty by (simp add: create_actions_frame f2)
  with inv cr show ?thesis
    by (simp only: eq)
qed

lemma recordAction_db:
  assumes "recordAction e t w a = (r, w')"
  shows "db w' =
     (if disabled t \<or> store_error e (store_calls w) \<noteq> None then db w
      else record_statement e (uuidv4 e (uuid_calls w)) (now w) a (db w))"
  using assms
  by (auto simp: recordAction_def request_def console_log_def Let_def split: if_splits option.splits)

lemma evolves_invariant:
  assumes "evolves e g g'" "edges_ok g" "no_orphans g"
  shows "edges_ok g' \<and> no_orphans g'"
  using assms
proof (induction rule: evolves.induct)
  case same
  then show ?case by simp
next
  case (recorded w t a r w')
  then show ?case
    using record_statement_invariant [of "db w" e _ _ a]
    by (simp add: recordAction_db [OF recorded.hyps(2)])
qed

lemma reachable_invariant:
  assumes "reachable e g"
  shows "edges_ok g \<and> no_orphans g"
proof -
  have "edges_ok empty_graph" "no_orphans empty_graph"
    by (simp_all add: edges_ok_def no_orphans_def empty_graph_def)
  then show ?thesis
    using assms evolves_invariant unfolding reachable_def by blast
qed

text \<open>
  Claim C1. Take a graph that calls of \<^verbatim>\<open>recordAction\<close> have built from the empty
  graph, and one more call. In the graph after the call every action has exactly one
  \<^verbatim>\<open>PERFORMED\<close> and exactly one \<^verbatim>\<open>USED\<close> relationship, and every relationship joins
  existing nodes. Every action that the call created has its performer among the users
  with the \<^verbatim>\<open>userId\<close> of the call and its target among the backends with the
  \<^verbatim>\<open>mcpId\<close> of the call. The call changes the graph in one step: either it is left
  as it was, or the action is there together with both relationships and the call
  answers that the action was recorded.
\<close>

theorem recordAction_no_orphans:
  assumes "reachable e (db w)" and "recordAction e t w a = (r, w')"
  shows "no_orphans (db w') \<and> edges_ok (db w') \<and> created_by a (db w) (db w') \<and>
         (db w' = db w \<or> length (actions (db w)) < length (actions (db w')) \<and>
            r = Recorded (uuidv4 e (uuid_calls w)) ''Action recorded successfully'')"
proof -
  have inv: "edges_ok (db w) \<and> no_orphans (db w)"
    using assms(1) by (rule reachable_invariant)
  show ?thesis
  proof (cases "disabled t \<or> store_error e (store_calls w) \<noteq> None")
    case True
    then have "db w' = db w"
      by (simp add: recordAction_db [OF assms(2)])
    then show ?thesis
      using inv by (simp add: created_by_def)
  next
    case False
    then have w': "db w' = record_statement e (uuidv4 e (uuid_calls w)) (now w) a (db w)"
      by (simp add: recordAction_db [OF assms(2)])
    have "r = Recorded (uuidv4 e (uuid_calls w)) ''Action recorded successfully''"
      using assms(2) False
      by (auto simp: recordAction_def request_def Let_def split: option.splits)
    then show ?thesis
      using inv record_statement_invariant [of "db w" e "uuidv4 e (uuid_calls w)" "now w" a]
      by (simp add: w')
  qed
qed


section \<open>Recording writes the attributes of a user and of a backend once\<close>

lemma evolves_nodes_kept:
  assumes "evolves e g g'"
  shows "prefix (users g) (users g') \<and> prefix (mcps g) (mcps g')"
  using assms
proof (induction rule: evolves.induct)
  case same
  then show ?case by simp
next
  case (recorded w t a r w')
  have "prefix (users (db w)) (users (db w'))"
    by (simp add: recordAction_db [OF recorded.hyps(2)] record_statement_users)
  moreover have "prefix (mcps (db w)) (mcps (db w'))"
    by (simp add: recordAction_db [OF recorded.hyps(2)] record_statement_mcps)
  ultimately show ?case
    using recorded.IH by (auto intro: prefix_order.trans)
qed


text \<open>
  Claim C2. Let a call of \<^verbatim>\<open>recordAction\<close> go through, let the graph evolve by any
  further calls, and let another call be made with the same \<^verbatim>\<open>userId\<close> and any
  \<^verbatim>\<open>userName\<close>. Then the second call leaves the list of User nodes as it found it,
  the User nodes that the first call left are still there with their names and creation
  times, and one of them has this \<^verbatim>\<open>userId\<close>. When the two calls also have the same
  \<^verbatim>\<open>mcpId\<close>, the same holds for the MCP nodes.
\<close>

theorem recordAction_upsert_once:
  assumes first: "recordAction e t w a = (r, w')"
    and went: "\<not> disabled t" "store_error e (store_calls w) = None"
    and between: "evolves e (db w') (db v)"
    and second: "recordAction e t' v b = (r', v')"
    and same_user: "userId b = userId a"
  shows "users (db v') = users (db v) \<and> prefix (users (db w')) (users (db v')) \<and>
         (\<exists>u\<in>set (users (db w')). user_id u = userId a) \<and>
         (mcpId b = mcpId a \<longrightarrow>
            mcps (db v') = mcps (db v) \<and> prefix (mcps (db w')) (mcps (db v')))"
proof -
  have w': "db w' = record_statement e (uuidv4 e (uuid_calls w)) (now w) a (db w)"
    using went by (simp add: recordAction_db [OF first])
  have user: "\<exists>u\<in>set (users (db w')). user_id u = userId a"
    unfolding w' record_statement_users by auto
  have mcp: "\<exists>m\<in>set (mcps (db w')). mcp_id m = mcpId a"
    unfolding w' record_statement_mcps by auto
  have kept: "prefix (users (db w')) (users (db v))" "prefix (mcps (db w')) (mcps (db v))"
    using evolves_nodes_kept [OF between] by simp_all
  have "set (users (db w')) \<subseteq> set (users (db v))"
    using kept(1) by (rule set_mono_prefix)
  then have user_v: "\<exists>u\<in>set (users (db v)). user_id u = userId b"
    using user same_user by auto
  have users_v': "users (db v') = users (db v)"
    using user_v by (simp add: recordAction_db [OF second] record_statement_users)
  have mcps_v': "mcps (db v') = mcps (db v)" if "mcpId b = mcpId a"
  proof -
    have "set (mcps (db w')) \<subseteq> set (mcps (db v))"
      using kept(2) by (rule set_mono_prefix)
    then have "\<exists>m\<in>set (mcps (db v)). mcp_id m = mcpId b"
      using mcp that by auto
    then show ?thesis
      by (simp add: recordAction_db [OF second] record_statement_mcps)
  qed
  show ?thesis
    using users_v' mcps_v' user kept by simp
qed


section \<open>The examples, evaluated\<close>

lemma example_statement:
  "record_statement example_env ''action-'' 1000 example_input empty_graph =
     \<lparr>users = [\<lparr>user_id = ''u1'', user_name = ''Ada'', user_createdAt = 1000\<rparr>],
      mcps = [\<lparr>mcp_id = ''dynamodb-mcp-server'', mcp_type = ''DynamoDB'',
              mcp_name = ''AWS DynamoDB'', mcp_createdAt = 1000\<rparr>],
      actions = [\<lparr>action_id = ''action-'', action_type = ''query'',
                 action_name = ''query_table'', action_parameters = ''{}'',
                 action_result = ''[]'', action_status = success,
                 action_timestamp = 1000\<rparr>],
      performed = [(0, 0)], used = [(0, 0)]\<rparr>"
  by (simp add: record_statement_def merge_user_def merge_mcp_def new_action_def empty_graph_def
      example_input_def example_env_def)

lemma example_recorded:
  "recordAction example_env example_tracker example_world example_input =
     (Recorded ''action-'' ''Action recorded successfully'',
      \<lparr>db = record_statement example_env ''action-'' 1000 example_input empty_graph,
       now = 1000, uuid_calls = 1, store_calls = 1, console = []\<rparr>)"
proof -
  have "\<not> disabled example_tracker"
    by (simp add: disabled_def example_tracker_def)
  moreover have "uuidv4 example_env 0 = ''action-''" "store_error example_env 0 = None"
    by (simp_all add: example_env_def)
  ultimately show ?thesis
    by (simp add: recordAction_def request_def example_world_def Let_def)
qed



lemma example_reachable: "reachable example_env (db example_world)"
  by (simp add: reachable_def example_world_def evolves.same)

theorem recordAction_no_orphans_witness:
  "reachable example_env (db example_world) \<and>
   no_orphans (db (snd (recordAction example_env example_tracker example_world example_input))) \<and>
   created_by example_input (db example_world)
     (db (snd (recordAction example_env example_tracker example_world example_input))) \<and>
   performers (db (snd (recordAction example_env example_tracker example_world example_input))) 0 = [0] \<and>
   targets (db (snd (recordAction example_env example_tracker example_world example_input))) 0 = [0]"
  using example_reachable recordAction_no_orphans [OF example_reachable example_recorded]
  by (simp add: example_recorded example_statement performers_def targets_def)

lemma example_later_eq:
  "example_later =
     \<lparr>db = record_statement example_env ''action-'' 1000 example_input empty_graph,
      now = 2000, uuid_calls = 1, store_calls = 1, console = []\<rparr>"
  by (simp add: example_later_def example_recorded)

lemma example_recorded_again:
  "db (snd (recordAction example_env example_tracker example_later
      (example_input\<lparr>userName := ''Grace''\<rparr>))) =
     record_statement example_env ''action-i'' 2000 (example_input\<lparr>userName := ''Grace''\<rparr>)
       (record_statement example_env ''action-'' 1000 example_input empty_graph)"
proof -
  have "\<not> disabled example_tracker"
    by (simp add: disabled_def example_tracker_def)
  moreover have "uuidv4 example_env (Suc 0) = ''action-i''" "store_error example_env (Suc 0) = None"
    by (simp_all add: example_env_def)
  ultimately show ?thesis
    unfolding example_later_eq by (simp add: recordAction_def request_def Let_def)
qed

theorem recordAction_upsert_once_witness:
  "userId (example_input\<lparr>userName := ''Grace''\<rparr>) = userId example_input \<and>
   userName (example_input\<lparr>userName := ''Grace''\<rparr>) \<noteq> userName example_input \<and>
   users (db (snd (recordAction example_env example_tracker example_later
      (example_input\<lparr>userName := ''Grace''\<rparr>)))) =
     [\<lparr>user_id = ''u1'', user_name = ''Ada'', user_createdAt = 1000\<rparr>] \<and>
   length (actions (db (snd (recordAction example_env example_tracker example_later
      (example_input\<lparr>userName := ''Grace''\<rparr>))))) = 2"
proof -
  let ?b = "example_input\<lparr>userName := ''Grace''\<rparr>"
  let ?second = "recordAction example_env example_tracker example_later ?b"
  have later: "db example_later =
      db (snd (recordAction example_env example_tracker example_world example_input))"
    by (simp add: example_later_def)
  have between: "evolves example_env
      (db (snd (recordAction example_env example_tracker example_world example_input)))
      (db example_later)"
    by (simp only: later evolves.same)
  have went: "\<not> disabled example_tracker"
    "store_error example_env (store_calls example_world) = None"
    by (simp_all add: disabled_def example_tracker_def example_env_def)
  have first: "recordAction example_env example_tracker example_world example_input =
      (fst (recordAction example_env example_tracker example_world example_input),
       snd (recordAction example_env example_tracker example_world example_input))"
    by simp
  have second: "?second = (fst ?second, snd ?second)"
    by simp
  have same_user: "userId ?b = userId example_input"
    by simp
  have len: "length (actions (db (snd ?second))) = 2"
    unfolding example_recorded_again example_statement
    by (simp add: record_statement_def merge_user_def merge_mcp_def example_input_def)
  have "users (db (snd ?second)) = users (db example_later)"
    using recordAction_upsert_once [OF first went between second same_user] by blast
  moreover have "users (db example_later) =
      [\<lparr>user_id = ''u1'', user_name = ''Ada'', user_createdAt = 1000\<rparr>]"
    unfolding example_later_eq example_statement by simp
  moreover have "userName ?b \<noteq> userName example_input"
    by (simp add: example_input_def)
  ultimately show ?thesis
    using len same_user by (simp only: simp_thms)
qed

section \<open>A disabled tracker\<close>

lemma exec_disabled:
  assumes "disabled t" and "exec e c (t, w) = (r, t', w')"
  shows "t' = t \<and> store_calls w' = store_calls w \<and> db w' = db w \<and> disabled_outcome c r \<and>
         console w' = console w @ skipped_connections [c]"
proof (cases c)
  case Connect
  then show ?thesis
    using assms by (auto simp: connect_def console_log_def skipped_connections_def)
next
  case Close
  then show ?thesis
    using assms by (auto simp: close_def skipped_connections_def)
next
  case (RecordAction a)
  then show ?thesis
    using assms by (auto simp: recordAction_def skipped_connections_def disabled_message_def)
next
  case (GetRelatedActions aid maxDepth)
  then show ?thesis
    using assms by (auto simp: getRelatedActions_def skipped_connections_def disabled_message_def)
next
  case (FindSimilarActions mty aty ps limit)
  then show ?thesis
    using assms by (auto simp: findSimilarActions_def skipped_connections_def disabled_message_def)
next
  case (GetUserActionHistory uid limit)
  then show ?thesis
    using assms by (auto simp: getUserActionHistory_def skipped_connections_def disabled_message_def)
next
  case (SuggestNextAction uid mty cty ps)
  then show ?thesis
    using assms by (auto simp: suggestNextAction_def skipped_connections_def disabled_message_def)
next
  case (GetActionRecommendations uid ctx)
  then show ?thesis
    using assms by (auto simp: getActionRecommendations_def skipped_connections_def disabled_message_def)
qed

lemma skipped_connections_Cons:
  "skipped_connections (c # cs) = skipped_connections [c] @ skipped_connections cs"
  by (simp add: skipped_connections_def)

lemma run_disabled:
  assumes "disabled t" and "run e cs (t, w) = (rs, t', w')"
  shows "t' = t \<and> store_calls w' = store_calls w \<and> db w' = db w \<and>
         list_all2 disabled_outcome cs rs \<and> console w' = console w @ skipped_connections cs"
  using assms
proof (induction cs arbitrary: w rs t' w')
  case Nil
  then show ?case by (simp add: skipped_connections_def)
next
  case (Cons c cs)
  obtain r t1 w1 where step: "exec e c (t, w) = (r, t1, w1)"
    by (cases "exec e c (t, w)")
  note one = exec_disabled [OF Cons.prems(1) step]
  then have t1: "t1 = t"
    by blast
  obtain rs' t2 w2 where rest: "run e cs (t, w1) = (rs', t2, w2)"
    by (cases "run e cs (t, w1)")
  note more = Cons.IH [OF Cons.prems(1) rest]
  have all: "rs = r # rs'" "t' = t2" "w' = w2"
    using Cons.prems(2) step rest unfolding t1 by simp_all
  have "store_calls w2 = store_calls w"
    using one more by (simp only:)
  moreover have "db w2 = db w"
    using one more by (simp only:)
  moreover have "console w2 = console w @ skipped_connections (c # cs)"
    using one more by (simp only: skipped_connections_Cons [of c cs] append_assoc)
  moreover have "list_all2 disabled_outcome (c # cs) (r # rs')"
    using one more by (simp only: list_all2_Cons simp_thms)
  moreover have "t2 = t"
    using more by blast
  ultimately show ?case
    unfolding all by blast
qed

lemma new_ActionTracker_missing:
  assumes "\<not> (truthy uri \<and> truthy username \<and> truthy password)"
    and "new_ActionTracker uri username password w0 = (t, w)"
  shows "disabled t \<and> driver t = None \<and> store_calls w = store_calls w0 \<and> db w = db w0"
  using assms by (auto simp: new_ActionTracker_def disabled_def console_log_def split: if_splits)

text \<open>
  Claim C6. Construct the tracker with \<^verbatim>\<open>uri\<close>, \<^verbatim>\<open>username\<close> or \<^verbatim>\<open>password\<close>
  left out. The constructor sends no request to the store, and the tracker it gives is
  disabled. Whatever calls are made on it afterwards, in any number and order, the
  tracker stays as it is, no request is sent to the store, the graph is not touched,
  and every call gives its disabled outcome: \<^verbatim>\<open>connect\<close> returns after writing
  ``Neo4j Action Tracker is disabled - skipping connection'' to the console, and every
  recorder or query method returns an answer whose message starts with ``Action
  tracking is disabled''.
\<close>

theorem missing_parameters_disable:
  assumes "uri = None \<or> username = None \<or> password = None"
    and "new_ActionTracker uri username password w0 = (t, w)"
    and "run e cs (t, w) = (rs, t', w')"
  shows "disabled t \<and> store_calls w = store_calls w0 \<and> t' = t \<and>
         store_calls w' = store_calls w0 \<and> db w' = db w0 \<and>
         list_all2 disabled_outcome cs rs \<and>
         console w' = console w @ skipped_connections cs"
proof -
  have "\<not> (truthy uri \<and> truthy username \<and> truthy password)"
    using assms(1) by (auto simp: truthy_def)
  then have new: "disabled t \<and> driver t = None \<and> store_calls w = store_calls w0 \<and> db w = db w0"
    using assms(2) by (rule new_ActionTracker_missing)
  then show ?thesis
    using run_disabled [OF _ assms(3)] by simp
qed

lemma connect_outcome:
  assumes "connect e t w = (t', w')"
  shows "t' = t \<or> disabled t'"
  using assms
  by (auto simp: connect_def connect_failed_def disabled_def split: if_splits prod.splits option.splits)

lemma connect_down:
  assumes "\<not> disabled t" and "store_error e (store_calls w) = Some err"
    and "connect e t w = (t', w')"
  shows "disabled t' \<and> store_calls w' = Suc (store_calls w)"
  using assms
  by (auto simp: connect_def connect_failed_def disabled_def request_def console_log_def)

text \<open>
  Claim C7. A tracker that is disabled, whether the constructor left it so
  (\<open>new_ActionTracker_missing\<close>) or a failed \<^verbatim>\<open>connect\<close> made it so
  (\<open>connect_down\<close>; by \<open>connect_outcome\<close> a \<^verbatim>\<open>connect\<close> never enables a
  tracker), is still the same disabled tracker after any list of calls; none of these
  calls sends a request to the store or touches the graph, and every recorder or query
  call answers with a message that starts with ``Action tracking is disabled''.
\<close>

theorem disabled_is_final:
  assumes "disabled t" and "run e cs (t, w) = (rs, t', w')"
  shows "disabled t' \<and> t' = t \<and> store_calls w' = store_calls w \<and> db w' = db w \<and>
         list_all2 disabled_outcome cs rs"
  using run_disabled [OF assms] assms(1) by simp

text \<open>
  Claim C9. On a disabled tracker \<^verbatim>\<open>recordAction\<close> answers with \<^verbatim>\<open>success: true\<close>,
  the identifier that it has just drawn from \<^verbatim>\<open>uuidv4\<close> and the message ``Action
  tracking is disabled - action not recorded'', and leaves the graph as it is; each of
  the five query methods answers with \<^verbatim>\<open>success: false\<close> and its own message that
  tracking is disabled.
\<close>

theorem disabled_answers:
  assumes "disabled t"
  shows "recordAction e t w a =
           (Recorded (uuidv4 e (uuid_calls w)) ''Action tracking is disabled - action not recorded'',
            w\<lparr>uuid_calls := Suc (uuid_calls w)\<rparr>) \<and>
         response_success (fst (recordAction e t w a)) \<and>
         db (snd (recordAction e t w a)) = db w \<and>
         getRelatedActions e t w aid maxDepth =
           (Failed ''Action tracking is disabled - cannot retrieve related actions'', w) \<and>
         findSimilarActions e t w mty aty ps limit =
           (Failed ''Action tracking is disabled - cannot find similar actions'', w) \<and>
         getUserActionHistory e t w uid limit' =
           (Failed ''Action tracking is disabled - cannot retrieve user action history'', w) \<and>
         suggestNextAction e t w uid mty cty ps =
           (Failed ''Action tracking is disabled - cannot suggest next action'', w) \<and>
         getActionRecommendations e t w uid ctx =
           (Failed ''Action tracking is disabled - cannot get action recommendations'', w) \<and>
         \<not> response_success (Failed m)"
  using assms
  by (simp add: recordAction_def getRelatedActions_def findSimilarActions_def
      getUserActionHistory_def suggestNextAction_def getActionRecommendations_def)


lemma example_missing:
  "new_ActionTracker None (Some ''neo4j'') (Some ''secret'') example_world =
     (\<lparr>driver = None, enabled = False\<rparr>,
      example_world\<lparr>console :=
        [''Neo4j connection parameters not provided. Action tracking will be disabled.'']\<rparr>)"
  by (simp add: new_ActionTracker_def truthy_def console_log_def example_world_def)

theorem missing_parameters_disable_witness:
  "disabled (fst (new_ActionTracker None (Some ''neo4j'') (Some ''secret'') example_world)) \<and>
   store_calls (snd (snd (run example_env example_calls
      (new_ActionTracker None (Some ''neo4j'') (Some ''secret'') example_world)))) = 0 \<and>
   list_all2 disabled_outcome example_calls
     (fst (run example_env example_calls
        (new_ActionTracker None (Some ''neo4j'') (Some ''secret'') example_world))) \<and>
   length (fst (run example_env example_calls
        (new_ActionTracker None (Some ''neo4j'') (Some ''secret'') example_world))) = 8"
proof -
  let ?new = "new_ActionTracker None (Some ''neo4j'') (Some ''secret'') example_world"
  let ?run = "run example_env example_calls ?new"
  have absent: "(None :: string option) = None \<or> Some ''neo4j'' = None \<or> Some ''secret'' = None"
    by simp
  have new: "?new = (fst ?new, snd ?new)"
    by simp
  have ran: "run example_env example_calls (fst ?new, snd ?new) = (fst ?run, fst (snd ?run), snd (snd ?run))"
    by simp
  have calls: "store_calls example_world = 0"
    by (simp add: example_world_def)
  have "length example_calls = length (fst ?run)"
    using missing_parameters_disable [OF absent new ran] by (blast dest: list_all2_lengthD)
  then have "length (fst ?run) = 8"
    by (simp add: example_calls_def)
  then show ?thesis
    using missing_parameters_disable [OF absent new ran] calls by (simp only: simp_thms)
qed

lemma example_connect_down:
  "disabled (fst (connect example_down example_tracker example_world)) \<and>
   store_calls (snd (connect example_down example_tracker example_world)) = 1"
proof -
  have "\<not> disabled example_tracker"
    by (simp add: disabled_def example_tracker_def)
  moreover have "store_error example_down (store_calls example_world) = Some ''ServiceUnavailable''"
    by (simp add: example_down_def)
  ultimately show ?thesis
    using connect_down [of example_tracker example_down example_world "''ServiceUnavailable''"
        "fst (connect example_down example_tracker example_world)"
        "snd (connect example_down example_tracker example_world)"]
    by (simp add: example_world_def)
qed

theorem disabled_is_final_witness:
  "disabled (fst (connect example_down example_tracker example_world)) \<and>
   disabled (fst (snd (run example_env example_calls
      (connect example_down example_tracker example_world)))) \<and>
   store_calls (snd (snd (run example_env example_calls
      (connect example_down example_tracker example_world)))) = 1 \<and>
   list_all2 disabled_outcome example_calls
     (fst (run example_env example_calls (connect example_down example_tracker example_world)))"
proof -
  let ?c = "connect example_down example_tracker example_world"
  let ?run = "run example_env example_calls ?c"
  have off: "disabled (fst ?c)" and calls: "store_calls (snd ?c) = 1"
    using example_connect_down by simp_all
  have ran: "run example_env example_calls (fst ?c, snd ?c) = (fst ?run, fst (snd ?run), snd (snd ?run))"
    by simp
  show ?thesis
    using disabled_is_final [OF off ran] off calls by (simp only: simp_thms)
qed

theorem disabled_answers_witness:
  "disabled \<lparr>driver = None, enabled = False\<rparr> \<and>
   fst (recordAction example_env \<lparr>driver = None, enabled = False\<rparr> example_world example_input) =
     Recorded ''action-'' ''Action tracking is disabled - action not recorded'' \<and>
   actions (db (snd (recordAction example_env \<lparr>driver = None, enabled = False\<rparr> example_world
     example_input))) = [] \<and>
   fst (findSimilarActions example_env \<lparr>driver = None, enabled = False\<rparr> example_world
     ''DynamoDB'' ''query'' ''{}'' None) =
     Failed ''Action tracking is disabled - cannot find similar actions''"
proof -
  have off: "disabled \<lparr>driver = None, enabled = False\<rparr>"
    by (simp add: disabled_def)
  have "uuidv4 example_env (uuid_calls example_world) = ''action-''"
    "actions (db example_world) = []"
    by (simp_all add: example_env_def example_world_def empty_graph_def)
  then show ?thesis
    using off disabled_answers [OF off, where e = example_env and w = example_world
        and a = example_input and mty = "''DynamoDB''" and aty = "''query''"
        and ps = "''{}''" and limit = None]
    by simp
qed

section \<open>The similarity of a string to itself\<close>

lemma find_first_upt:
  assumes "a \<le> i" "i < b" "P i" "\<forall>j. a \<le> j \<and> j < i \<longrightarrow> \<not> P j"
  shows "find P [a..<b] = Some i"
  using assms
proof (induction "i - a" arbitrary: a)
  case 0
  then have "a = i" by simp
  then show ?case
    using "0.prems" by (simp add: upt_conv_Cons)
next
  case (Suc k)
  then have less: "a < i" by simp
  then have "\<not> P a"
    using Suc.prems by simp
  moreover have "[a..<b] = a # [Suc a..<b]"
    using less Suc.prems(2) by (simp add: upt_conv_Cons)
  moreover have "find P [Suc a..<b] = Some i"
    using Suc.hyps Suc.prems less by (intro Suc.hyps(1)) auto
  ultimately show ?case by simp
qed

lemma jaro_matches_same:
  assumes "cs = drop i s" "set taken = {0..<i}"
  shows "jaro_matches d cs s i taken = map (\<lambda>k. (k, k)) [i..<length s]"
  using assms
proof (induction cs arbitrary: i taken)
  case Nil
  then have "length s \<le> i" by simp
  then show ?case by simp
next
  case (Cons c cs)
  have i: "i < length s"
    using Cons.prems(1) by (metis drop_eq_Nil list.distinct(1) not_le)
  have c: "c = s ! i" and cs: "cs = drop (Suc i) s"
    using Cons.prems(1) i by (simp_all add: Cons_nth_drop_Suc [symmetric])
  have found: "find (\<lambda>j. j \<notin> set taken \<and> s ! j = c) [i - d..<min (Suc (i + d)) (length s)] = Some i"
    using i c Cons.prems(2) by (intro find_first_upt) auto
  have "set (i # taken) = {0..<Suc i}"
    using Cons.prems(2) by auto
  from Cons.IH [OF cs this]
  show ?case
    using i by (simp add: found upt_conv_Cons)
qed

lemma jaro_same:
  assumes "s \<noteq> []"
  shows "jaro s s = 1"
proof -
  have ms: "jaro_matches (max (length s) (length s) div 2 - 1) s s 0 [] =
      map (\<lambda>k. (k, k)) [0..<length s]"
    by (rule jaro_matches_same) simp_all
  have chars: "map (\<lambda>(i, j). s ! i) (map (\<lambda>k. (k, k)) [0..<length s]) = s"
    by (simp add: comp_def map_nth)
  have sorted: "sort (map snd (map (\<lambda>k. (k, k)) [0..<length s])) = [0..<length s]"
    by (simp add: comp_def sorted_sort_id)
  have "filter (\<lambda>(c, c'). c \<noteq> c') (zip s s) = []"
    by (auto simp: filter_empty_conv zip_same)
  then have t: "jaro_transpositions s s (map (\<lambda>k. (k, k)) [0..<length s]) = 0"
    unfolding jaro_transpositions_def chars sorted by (simp add: map_nth)
  have "length s \<noteq> 0"
    using assms by simp
  then show ?thesis
    unfolding jaro_def ms Let_def t by simp
qed

lemma jaro_winkler_same:
  assumes "s \<noteq> []"
  shows "jaro_winkler s s = 1"
  by (simp add: jaro_winkler_def jaro_same [OF assms])

section \<open>The answers of findSimilarActions and getUserActionHistory\<close>

lemma set_insert_by: "set (insert_by le x xs) = insert x (set xs)"
  by (induction xs) auto

lemma set_order_by: "set (order_by le xs) = set xs"
  unfolding order_by_def by (induction xs) (simp_all add: set_insert_by)



lemma map_or_throw_isl: "isl (map_or_throw f xs) = (\<exists>x\<in>set xs. isl (f x))"
  by (induction xs) (auto split: sum.splits)

lemma map_or_throw_Inr:
  "map_or_throw f xs = Inr ys \<Longrightarrow> ys = map (\<lambda>x. projr (f x)) xs"
  by (induction xs arbitrary: ys) (auto split: sum.splits)

lemma parse_action_isl: "isl (parse_action e a) = undeserializable e a"
  by (auto simp: parse_action_def undeserializable_def split: sum.splits)

lemma similar_record_isl: "isl (similar_record e g row) = undeserializable e (actions g ! fst row)"
  by (cases row) (auto simp: similar_record_def parse_action_isl [symmetric] split: sum.splits)

lemma history_record_isl: "isl (history_record e g row) = undeserializable e (actions g ! fst row)"
  by (cases row) (auto simp: history_record_def parse_action_isl [symmetric] split: sum.splits)

lemma similar_record_Inr:
  assumes "similar_record e g (a, m, s) = Inr r"
  shows "sa_similarity r = s \<and> pa_id (sa_action r) = action_id (actions g ! a) \<and>
         sa_mcp r = mcps g ! m"
  using assms
  by (auto simp: similar_record_def parse_action_def split: sum.splits)

lemma similar_rows_member:
  assumes "(a, m, s) \<in> set (similar_rows e mty aty pj g)"
  shows "7 / 10 < s \<and> s = jaroWinklerDistance e pj (action_parameters (actions g ! a)) \<and>
         (a, m) \<in> set (used g) \<and> a < length (actions g) \<and> m < length (mcps g) \<and>
         mcp_type (mcps g ! m) = mty \<and> action_type (actions g ! a) = aty"
  using assms by (auto simp: similar_rows_def)

lemma similar_statement_subset:
  "set (similar_statement e mty aty pj limit g) \<subseteq> set (similar_rows e mty aty pj g)"
  unfolding similar_statement_def
  using set_take_subset [of limit] by (fastforce simp: set_order_by)

lemma findSimilarActions_cases:
  assumes "\<not> disabled t" and "store_error e (store_calls w) = None"
  shows "findSimilarActions e t w mty aty ps limit =
     (case map_or_throw (similar_record e (db w))
             (similar_statement e mty aty (stringify e ps)
                (case limit of None \<Rightarrow> 5 | Some n \<Rightarrow> n) (db w)) of
        Inl err \<Rightarrow>
          (Failed (''Failed to find similar actions: '' @ err),
           console_log (''Error finding similar actions: '' @ err)
             (w\<lparr>store_calls := Suc (store_calls w)\<rparr>))
      | Inr similarActions \<Rightarrow> (SimilarActions similarActions, w\<lparr>store_calls := Suc (store_calls w)\<rparr>))"
  using assms by (simp add: findSimilarActions_def request_def)

lemma findSimilarActions_rows:
  assumes "findSimilarActions e t w mty aty ps limit = (SimilarActions rows, w')"
  shows "map_or_throw (similar_record e (db w))
           (similar_statement e mty aty (stringify e ps)
              (case limit of None \<Rightarrow> 5 | Some n \<Rightarrow> n) (db w)) = Inr rows"
  using assms
  by (auto simp: findSimilarActions_def request_def split: if_splits option.splits sum.splits)

text \<open>
  Claim C5. When \<^verbatim>\<open>findSimilarActions\<close> answers with a list, every entry of the list
  has a similarity above \<open>7/10\<close>, and this similarity is the score that the store
  computed for the serialized parameters of the query and the stored parameters of an
  action of the queried type, the action that the entry shows.
\<close>

theorem findSimilarActions_threshold:
  assumes "findSimilarActions e t w mty aty ps limit = (SimilarActions rows, w')"
  shows "\<forall>r\<in>set rows.
           7 / 10 < sa_similarity r \<and>
           (\<exists>a<length (actions (db w)).
              pa_id (sa_action r) = action_id (actions (db w) ! a) \<and>
              action_type (actions (db w) ! a) = aty \<and>
              sa_similarity r =
                jaroWinklerDistance e (stringify e ps) (action_parameters (actions (db w) ! a)))"
proof
  fix r
  assume r: "r \<in> set rows"
  let ?st = "similar_statement e mty aty (stringify e ps)
      (case limit of None \<Rightarrow> 5 | Some n \<Rightarrow> n) (db w)"
  have ok: "map_or_throw (similar_record e (db w)) ?st = Inr rows"
    using assms by (rule findSimilarActions_rows)
  then have "rows = map (\<lambda>x. projr (similar_record e (db w) x)) ?st"
    by (rule map_or_throw_Inr)
  then obtain row where row: "row \<in> set ?st" "r = projr (similar_record e (db w) row)"
    using r by auto
  have "\<not> isl (similar_record e (db w) row)"
    using ok row(1) map_or_throw_isl [of "similar_record e (db w)" ?st] by auto
  then have rec: "similar_record e (db w) row = Inr r"
    using row(2) by (cases "similar_record e (db w) row") simp_all
  obtain a m s where ams: "row = (a, m, s)"
    by (cases row)
  have "(a, m, s) \<in> set (similar_rows e mty aty (stringify e ps) (db w))"
    using row(1) similar_statement_subset unfolding ams by blast
  from similar_rows_member [OF this] similar_record_Inr [OF rec [unfolded ams]]
  show "7 / 10 < sa_similarity r \<and>
      (\<exists>a<length (actions (db w)).
         pa_id (sa_action r) = action_id (actions (db w) ! a) \<and>
         action_type (actions (db w) ! a) = aty \<and>
         sa_similarity r =
           jaroWinklerDistance e (stringify e ps) (action_parameters (actions (db w) ! a)))"
    by auto
qed

section \<open>The queries on the examples\<close>

lemma example_similarity: "jaroWinklerDistance example_env ''{}'' ''{}'' = 1"
  by (simp add: example_env_def jaro_winkler_same)

lemma example_enabled: "\<not> disabled example_tracker"
  by (simp add: disabled_def example_tracker_def)

lemma example_store_up: "store_error example_env n = None"
  by (simp add: example_env_def)

lemma example_stringify: "stringify example_env j = j"
  by (simp add: example_env_def)

lemma example_parse: "parse example_env s = (if s = ''{'' then Inl ''SyntaxError: Unexpected end of JSON input'' else Inr s)"
  by (simp add: example_env_def)

lemma twice_graph:
  "db twice_world =
     \<lparr>users = [example_user], mcps = [example_mcp],
      actions = [example_query ''a1'' ''[]'' 1000, example_query ''a2'' ''[]'' 2000],
      performed = [(0, 0), (0, 1)], used = [(0, 0), (1, 0)]\<rparr>"
  by (simp add: twice_world_def example_graph_def upt_rec)

lemma twice_similar_rows:
  "similar_rows example_env ''DynamoDB'' ''query'' ''{}'' (db twice_world) = [(0, 0, 1), (1, 0, 1)]"
  unfolding twice_graph
  by (simp add: similar_rows_def example_query_def example_mcp_def example_similarity)

lemma twice_similar_statement:
  "similar_statement example_env ''DynamoDB'' ''query'' ''{}'' limit (db twice_world) =
     take limit [(1, 0, 1), (0, 0, 1)]"
  unfolding similar_statement_def twice_similar_rows
  unfolding twice_graph
  by (simp add: order_by_def example_query_def)

lemma twice_records:
  "similar_record example_env (db twice_world) (Suc 0, 0, 1) = Inr (twice_row ''a2'' 2000)"
  "similar_record example_env (db twice_world) (0, 0, 1) = Inr (twice_row ''a1'' 1000)"
  unfolding twice_graph
  by (simp_all add: similar_record_def parse_action_def example_parse example_query_def twice_row_def)

lemma twice_found:
  "findSimilarActions example_env example_tracker twice_world ''DynamoDB'' ''query'' ''{}'' limit =
     (SimilarActions (take (case limit of None \<Rightarrow> 5 | Some n \<Rightarrow> n)
        [twice_row ''a2'' 2000, twice_row ''a1'' 1000]),
      twice_world\<lparr>store_calls := Suc (store_calls twice_world)\<rparr>)"
proof (cases "case limit of None \<Rightarrow> 5 | Some n \<Rightarrow> n")
  case 0
  then show ?thesis
    unfolding findSimilarActions_cases [OF example_enabled example_store_up] example_stringify
      twice_similar_statement
    by simp
next
  case (Suc k)
  then show ?thesis
    unfolding findSimilarActions_cases [OF example_enabled example_store_up] example_stringify
      twice_similar_statement
    by (cases k) (simp_all add: twice_records)
qed

theorem findSimilarActions_threshold_witness:
  "fst (findSimilarActions example_env example_tracker twice_world ''DynamoDB'' ''query'' ''{}'' None) =
     SimilarActions [twice_row ''a2'' 2000, twice_row ''a1'' 1000] \<and>
   7 / 10 < sa_similarity (twice_row ''a2'' 2000) \<and>
   7 / 10 < sa_similarity (twice_row ''a1'' 1000)"
proof -
  have found: "findSimilarActions example_env example_tracker twice_world ''DynamoDB'' ''query''
      ''{}'' None =
     (SimilarActions [twice_row ''a2'' 2000, twice_row ''a1'' 1000],
      twice_world\<lparr>store_calls := Suc (store_calls twice_world)\<rparr>)"
    by (simp add: twice_found)
  show ?thesis
    using findSimilarActions_threshold [OF found] by (simp add: found)
qed

section \<open>Records that do not deserialize\<close>

lemma getUserActionHistory_cases:
  assumes "\<not> disabled t" and "store_error e (store_calls w) = None"
  shows "getUserActionHistory e t w uid limit =
     (case map_or_throw (history_record e (db w))
             (history_statement uid (case limit of None \<Rightarrow> 20 | Some n \<Rightarrow> n) (db w)) of
        Inl err \<Rightarrow>
          (Failed (''Failed to get user action history: '' @ err),
           console_log (''Error getting user action history: '' @ err)
             (w\<lparr>store_calls := Suc (store_calls w)\<rparr>))
      | Inr acts \<Rightarrow> (History acts, w\<lparr>store_calls := Suc (store_calls w)\<rparr>))"
  using assms by (simp add: getUserActionHistory_def request_def)

lemma similar_matches_broken:
  "(\<exists>a\<in>set (similar_matches e mty aty ps limit g). undeserializable e a) =
   isl (map_or_throw (similar_record e g)
          (similar_statement e mty aty (stringify e ps) (case limit of None \<Rightarrow> 5 | Some n \<Rightarrow> n) g))"
  by (simp add: similar_matches_def map_or_throw_isl similar_record_isl)

lemma history_matches_broken:
  "(\<exists>a\<in>set (history_matches uid limit g). undeserializable e a) =
   isl (map_or_throw (history_record e g)
          (history_statement uid (case limit of None \<Rightarrow> 20 | Some n \<Rightarrow> n) g))"
  by (simp add: history_matches_def map_or_throw_isl history_record_isl)

text \<open>
  Claim C10. Let the tracker be enabled and the request go through. If \<^verbatim>\<open>JSON.parse\<close>
  rejects the stored parameters or the stored result of one of the records that the
  statement of \<^verbatim>\<open>findSimilarActions\<close> returns, the call answers
  \<^verbatim>\<open>{success: false, message}\<close> with a message that starts ``Failed to find similar
  actions: ''; otherwise it answers with a list that has one entry for every record.
  The same holds for \<^verbatim>\<open>getUserActionHistory\<close>, with the message ``Failed to get user
  action history: ''. No answer carries a list with fewer entries than records.
\<close>

theorem deserialization_failure_fails_call:
  assumes "\<not> disabled t" and "store_error e (store_calls w) = None"
  shows "(if \<exists>a\<in>set (similar_matches e mty aty ps limit (db w)). undeserializable e a
          then \<exists>err. fst (findSimilarActions e t w mty aty ps limit) =
                   Failed (''Failed to find similar actions: '' @ err)
          else \<exists>rows. fst (findSimilarActions e t w mty aty ps limit) = SimilarActions rows \<and>
                   length rows = length (similar_matches e mty aty ps limit (db w))) \<and>
         (if \<exists>a\<in>set (history_matches uid limit' (db w)). undeserializable e a
          then \<exists>err. fst (getUserActionHistory e t w uid limit') =
                   Failed (''Failed to get user action history: '' @ err)
          else \<exists>rows. fst (getUserActionHistory e t w uid limit') = History rows \<and>
                   length rows = length (history_matches uid limit' (db w)))"
proof -
  let ?similar = "map_or_throw (similar_record e (db w))
      (similar_statement e mty aty (stringify e ps) (case limit of None \<Rightarrow> 5 | Some n \<Rightarrow> n) (db w))"
  let ?history = "map_or_throw (history_record e (db w))
      (history_statement uid (case limit' of None \<Rightarrow> 20 | Some n \<Rightarrow> n) (db w))"
  have "length rows = length (similar_matches e mty aty ps limit (db w))" if "?similar = Inr rows" for rows
    using map_or_throw_Inr [OF that] by (simp add: similar_matches_def)
  moreover have "length rows = length (history_matches uid limit' (db w))" if "?history = Inr rows" for rows
    using map_or_throw_Inr [OF that] by (simp add: history_matches_def)
  ultimately show ?thesis
    unfolding similar_matches_broken history_matches_broken
      findSimilarActions_cases [OF assms] getUserActionHistory_cases [OF assms]
    by (cases ?similar; cases ?history) simp_all
qed

lemma broken_graph:
  "db broken_world =
     \<lparr>users = [example_user], mcps = [example_mcp],
      actions = [example_query ''a1'' ''{'' 1000],
      performed = [(0, 0)], used = [(0, 0)]\<rparr>"
  by (simp add: broken_world_def example_graph_def)

lemma broken_similar_matches:
  "similar_matches example_env ''DynamoDB'' ''query'' ''{}'' None (db broken_world) =
     [example_query ''a1'' ''{'' 1000]"
  unfolding similar_matches_def similar_statement_def example_stringify
  unfolding broken_graph
  by (simp add: similar_rows_def order_by_def example_query_def example_mcp_def example_similarity)

lemma broken_history_matches:
  "history_matches ''u1'' None (db broken_world) = [example_query ''a1'' ''{'' 1000]"
  unfolding history_matches_def history_statement_def
  unfolding broken_graph
  by (simp add: order_by_def example_user_def)

lemma broken_undeserializable: "undeserializable example_env (example_query ''a1'' ''{'' 1000)"
  by (simp add: undeserializable_def example_parse example_query_def)

theorem deserialization_failure_fails_call_witness:
  "undeserializable example_env (example_query ''a1'' ''{'' 1000) \<and>
   similar_matches example_env ''DynamoDB'' ''query'' ''{}'' None (db broken_world) =
     [example_query ''a1'' ''{'' 1000] \<and>
   (\<exists>err. fst (findSimilarActions example_env example_tracker broken_world ''DynamoDB'' ''query''
       ''{}'' None) = Failed (''Failed to find similar actions: '' @ err)) \<and>
   (\<exists>err. fst (getUserActionHistory example_env example_tracker broken_world ''u1'' None) =
       Failed (''Failed to get user action history: '' @ err))"
  using deserialization_failure_fails_call [OF example_enabled example_store_up,
      where w = broken_world and mty = "''DynamoDB''" and aty = "''query''" and ps = "''{}''"
      and limit = None and uid = "''u1''" and limit' = None]
  by (simp add: broken_similar_matches broken_history_matches broken_undeserializable)

section \<open>The window and the user of suggestNextAction\<close>

text \<open>
  The test \<^verbatim>\<open>timeDiff.minutes < 30\<close>: for a successor less than one day after the
  anchor it holds exactly when less than thirty minutes lie between them, and it does
  not see whole days.
\<close>

lemma window_within_a_day:
  assumes "n - c < 86400000"
  shows "(minutes (duration_between c n) < 30) = (n - c < 1800000)"
proof -
  have "minutes (duration_between c n) = (n - c) div 60000"
    using assms by (simp add: minutes_def duration_between_def div_mult2_eq [symmetric])
  then show ?thesis
    by (simp add: div_less_iff_less_mult)
qed

lemma window_ignores_days:
  assumes "c \<le> n"
  shows "minutes (duration_between c (n + 86400000 * k)) = minutes (duration_between c n)"
proof -
  have "n + 86400000 * k - c = (n - c) + 86400000 * k"
    using assms by simp
  then show ?thesis
    by (simp add: minutes_def duration_between_def)
qed

lemma next_day_graph:
  "db next_day_world =
     \<lparr>users = [example_user], mcps = [example_mcp],
      actions = [example_query ''a1'' ''[]'' 1000, example_export ''a2'' 87001000],
      performed = [(0, 0), (0, 1)], used = [(0, 0), (1, 0)]\<rparr>"
  by (simp add: next_day_world_def example_graph_def upt_rec)

lemma next_day_minutes: "minutes (duration_between 1000 87001000) = 10"
  by (simp add: minutes_def duration_between_def)

lemma next_day_rows:
  "next_rows example_env ''DynamoDB'' ''query'' ''{}'' (db next_day_world) = [(0, 1)]"
  unfolding next_day_graph
  by (simp add: next_rows_def example_query_def example_export_def example_mcp_def
      example_similarity next_day_minutes)

lemma next_day_statement:
  "suggest_statement example_env uid ''DynamoDB'' ''query'' ''{}'' (db next_day_world) =
     [((''export'', ''export_table''), [''{}''], 1)]"
  unfolding suggest_statement_def next_day_rows
  unfolding next_day_graph
  by (simp add: aggregate_def order_by_def example_export_def)

lemma suggestNextAction_cases:
  assumes "\<not> disabled t" and "store_error e (store_calls w) = None"
  shows "suggestNextAction e t w uid mty cty ps =
     (case map_or_throw (suggestion_record e) (suggest_statement e uid mty cty (stringify e ps) (db w)) of
        Inl err \<Rightarrow>
          (Failed (''Failed to suggest next action: '' @ err),
           console_log (''Error suggesting next action: '' @ err)
             (w\<lparr>store_calls := Suc (store_calls w)\<rparr>))
      | Inr suggestions \<Rightarrow> (Suggestions suggestions, w\<lparr>store_calls := Suc (store_calls w)\<rparr>))"
  using assms by (simp add: suggestNextAction_def request_def)

lemma next_day_suggested:
  "suggestNextAction example_env example_tracker next_day_world uid ''DynamoDB'' ''query'' ''{}'' =
     (Suggestions [\<lparr>sg_actionType = ''export'', sg_actionName = ''export_table'',
                    sg_possibleParameters = [''{}''], sg_frequency = 1\<rparr>],
      next_day_world\<lparr>store_calls := Suc (store_calls next_day_world)\<rparr>)"
  unfolding suggestNextAction_cases [OF example_enabled example_store_up] example_stringify
    next_day_statement
  by (simp add: suggestion_record_def example_parse toInt_def)

text \<open>
  Claim C3 says that a successor thirty minutes or more after its anchor is left out of
  the aggregation of \<^verbatim>\<open>suggestNextAction\<close>, and that one at 29 minutes is kept. By
  \<open>window_within_a_day\<close> this is so as long as the successor comes less than one day
  after the anchor. In the example the same user ran the export one day and ten minutes
  after the query, against the same backend: the statement keeps the pair, and the call
  suggests the export with frequency 1.
\<close>

theorem suggestNextAction_next_day:
  "action_timestamp (actions (db next_day_world) ! 1) =
     action_timestamp (actions (db next_day_world) ! 0) + 86400000 + 10 * 60000 \<and>
   next_rows example_env ''DynamoDB'' ''query'' ''{}'' (db next_day_world) = [(0, 1)] \<and>
   fst (suggestNextAction example_env example_tracker next_day_world ''u1'' ''DynamoDB'' ''query''
          ''{}'') =
     Suggestions [\<lparr>sg_actionType = ''export'', sg_actionName = ''export_table'',
                   sg_possibleParameters = [''{}''], sg_frequency = 1\<rparr>]"
  unfolding next_day_suggested next_day_rows
  unfolding next_day_graph
  by (simp add: example_query_def example_export_def)

text \<open>
  Claim C8. \<^verbatim>\<open>suggestNextAction\<close> and \<^verbatim>\<open>getActionRecommendations\<close> give the same
  answer, and leave the same world, for any two values of \<^verbatim>\<open>userId\<close> when the
  tracker, the store and the other arguments are the same.
\<close>

theorem userId_ignored:
  "suggestNextAction e t w uid mty cty ps = suggestNextAction e t w uid' mty cty ps \<and>
   getActionRecommendations e t w uid ctx = getActionRecommendations e t w uid' ctx"
  unfolding suggestNextAction_def getActionRecommendations_def suggest_statement_def
    recommend_statement_def
  by simp

theorem userId_ignored_witness:
  "suggestNextAction example_env example_tracker next_day_world ''someone else'' ''DynamoDB''
     ''query'' ''{}'' =
     (Suggestions [\<lparr>sg_actionType = ''export'', sg_actionName = ''export_table'',
                    sg_possibleParameters = [''{}''], sg_frequency = 1\<rparr>],
      next_day_world\<lparr>store_calls := Suc (store_calls next_day_world)\<rparr>) \<and>
   getActionRecommendations example_env example_tracker next_day_world ''someone else''
     ''export_table'' =
   getActionRecommendations example_env example_tracker next_day_world ''u1'' ''export_table''"
  using userId_ignored [of example_env example_tracker next_day_world "''someone else''"
      "''DynamoDB''" "''query''" "''{}''" "''u1''" "''export_table''"]
    next_day_suggested [of "''u1''"]
  by simp

section \<open>Identical parameters\<close>




end
